theory Spec2Isabelle
  imports Complex_Main
begin

section \<open>Values shared by the two page scripts\<close>

text \<open>
  The repository is two browser scripts: the chat page (\<^verbatim>\<open>src/unnamed/part_001\<close>) and
  the query page (\<^verbatim>\<open>src/static/js/app.js\<close>). Both are modelled by explicit state
  passing. A JavaScript string is a \<open>string\<close>; a \<open>char\<close> stands for one code unit
  below 256. A property that may be \<^verbatim>\<open>undefined\<close> or \<^verbatim>\<open>null\<close> is an \<open>option\<close>
  where the script treats the two alike (it reads the property through \<^verbatim>\<open>||\<close> or a
  truth test), and a \<open>nullable\<close> where it does not.
  A number is carried as a rational; the scripts only print numbers, and the printing
  functions (\<^verbatim>\<open>toFixed\<close>, \<^verbatim>\<open>toLocaleTimeString\<close>) are parameters of the model.

  What the templates interpolate is kept field by field; the literal markup around
  the interpolations, focus, scrolling and the height of the text area are left out.
\<close>

type_synonym number = rat

definition or_else :: "string option \<Rightarrow> string \<Rightarrow> string" where
  \<comment> \<open>\<^verbatim>\<open>a || d\<close> on a string that may be missing: the empty string is falsy.\<close>
  "or_else a d = (case a of None \<Rightarrow> d | Some x \<Rightarrow> if x = [] then d else x)"

definition or_number :: "number option \<Rightarrow> number \<Rightarrow> number" where
  \<comment> \<open>\<^verbatim>\<open>a || d\<close> on a number that may be missing: zero is falsy.\<close>
  "or_number a d = (case a of None \<Rightarrow> d | Some x \<Rightarrow> if x = 0 then d else x)"

definition isWhiteSpace :: "char \<Rightarrow> bool" where
  \<comment> \<open>White space and line terminators among the code units below 256.\<close>
  "isWhiteSpace c = (c \<in> set [CHR 0x09, CHR 0x0A, CHR 0x0B, CHR 0x0C, CHR 0x0D, CHR 0x20, CHR 0xA0])"

definition trim :: "string \<Rightarrow> string" where
  "trim s = rev (dropWhile isWhiteSpace (rev (dropWhile isWhiteSpace s)))"

datatype 'a nullable =
    Undefined
  | Null
  | Obj 'a

datatype 'a fetched =
    Rejected string
  | Responded bool 'a

text \<open>
  The result of awaiting \<^verbatim>\<open>fetch\<close> and, where the script reads it, the body:
  \<open>Rejected m\<close> when either promise rejects with an error whose message is \<open>m\<close>,
  \<open>Responded ok body\<close> otherwise, with \<^verbatim>\<open>response.ok\<close> and the parsed body. No
  script touches its state between the two awaits, so they are one resumption.
\<close>

section \<open>The chat page: data\<close>

record evidence_item =
  actor :: "string option"
  source :: string
  evidence_text :: string
  score :: number

record metadata =
  evidence :: "evidence_item list option"
  confidence :: "number option"
  model :: "string option"
  trace_id :: "string option"
  source_count :: "number option"

definition empty_metadata :: metadata where
  \<comment> \<open>The default \<^verbatim>\<open>{}\<close> of the parameter \<^verbatim>\<open>metadata\<close>.\<close>
  "empty_metadata = \<lparr>evidence = None, confidence = None, model = None, trace_id = None,
     source_count = None\<rparr>"

record msg_data =
  md_content :: string
  md_metadata :: "metadata option"

text \<open>
  An entry of the registry: \<^verbatim>\<open>{content, metadata}\<close>. The metadata is an object, or
  \<^verbatim>\<open>null\<close> (\<open>None\<close>) when \<open>appendAssistantMessage\<close> was called with \<^verbatim>\<open>null\<close>.
\<close>

record message =
  role :: string
  content :: string
  msg_metadata :: "metadata nullable"
  timestamp :: "string option"

record conversation =
  title :: "string option"
  messages :: "message list option"

record conv_summary =
  conv_id :: string
  conv_title :: string

record chat_reply =
  assistant_message :: string
  reply_metadata :: "metadata nullable"
  reply_error :: "string option"

text \<open>
  The parsed bodies, with the fields the script reads: a stored message, a conversation
  (an error response has neither \<^verbatim>\<open>title\<close> nor \<^verbatim>\<open>messages\<close>), an entry of the list of
  conversations, and the answer to a chat message (\<^verbatim>\<open>assistant_message\<close> and
  \<^verbatim>\<open>metadata\<close> of a reply, \<^verbatim>\<open>error\<close> of an error response). The \<^verbatim>\<open>metadata\<close> of a
  message or of a reply is missing, \<^verbatim>\<open>null\<close> or an object. The bodies are those in which
  \<^verbatim>\<open>role\<close>, \<^verbatim>\<open>content\<close> and \<^verbatim>\<open>assistant_message\<close> are strings.
\<close>

record export_body =
  x_query :: string
  x_answer :: string
  x_evidence :: "evidence_item list"
  x_confidence :: number
  x_model :: string
  x_trace_id :: string
  x_source_count :: number
  x_timestamp :: string

record feedback_body =
  fb_query :: string
  fb_answer :: string
  fb_rating :: nat
  fb_relevance :: string
  fb_accuracy :: string
  fb_comments :: string
  fb_trace_id :: string
  fb_evidence_count :: "nat option"

datatype request =
    GetConversations
  | PostConversations string
  | GetConversation string
  | DeleteConversation string
  | PostMessage "string option" string
  | PostExport string export_body
  | PostFeedback feedback_body

text \<open>
  A network call the page issued: the list of conversations, a new conversation with
  its title, one conversation, a deletion, a chat message (the conversation identifier
  the URL is built from and the message), an export (\<open>''pdf''\<close> or \<open>''csv''\<close>) and a
  feedback record.
\<close>

datatype cont =
    SendMessageK
  | CreateNewChatK
  | LoadConversationK string
  | DeleteConversationK string
  | LoadConversationsK
  | ExportMessagePDFK
  | ExportMessageCSVK
  | QuickFeedbackK
  | SubmitFeedbackK

text \<open>
  An \<^verbatim>\<open>async\<close> function runs to its first \<^verbatim>\<open>await\<close> and is resumed when the awaited
  call settles. \<open>cont\<close> names the suspended rest of each function, with the local
  variables the rest still reads. For a function \<open>f\<close> of the script, \<open>f\<close> is the part
  that runs when it is called and \<open>f_resume\<close> the part that runs when its call settled.
\<close>

record evidence_view =
  ev_number :: nat
  ev_actor :: string
  ev_source :: string
  ev_text :: string

datatype element =
    UserMessage string string
  | AssistantMessage string string "(nat \<times> evidence_view list) option" string "string option"
  | ErrorMessage string string
  | TypingMessage

text \<open>
  A child of the messages container. \<open>UserMessage time text\<close> and \<open>ErrorMessage time text\<close>
  hold the time shown and the markup put into \<^verbatim>\<open>message-text\<close>.
  \<open>AssistantMessage time text ev id thumb\<close> holds, besides, the evidence block when there
  is one (the number in the \<^verbatim>\<open>evidence-count\<close> badge and the evidence items rendered),
  the message identifier its five action buttons pass to their handlers, and which of
  the two thumb buttons carries the class \<^verbatim>\<open>active\<close>. \<open>TypingMessage\<close> is the typing
  indicator (class \<^verbatim>\<open>typing-message\<close>).
\<close>

record conversation_item =
  item_id :: string
  item_title :: string
  item_active :: bool

datatype list_view =
    EmptyConversations
  | ConversationItems "conversation_item list"

record browser =
  time_now :: string
  time_of :: "string \<Rightarrow> string"
  iso_now :: string
  millis_now :: string
  type_error :: "string \<Rightarrow> string \<Rightarrow> string"

text \<open>
  What the browser gives during one run of a handler:
  \<^verbatim>\<open>new Date().toLocaleTimeString()\<close>, \<^verbatim>\<open>new Date(t).toLocaleTimeString()\<close>,
  \<^verbatim>\<open>new Date().toISOString()\<close> and \<^verbatim>\<open>Date.now()\<close> printed, and \<open>type_error b k\<close>, the
  message of the TypeError its engine raises when the script reads property \<open>k\<close> of
  \<open>b\<close>, which is \<open>''undefined''\<close> or \<open>''null''\<close>.
\<close>

record state =
  currentConversationId :: "string option"
  isWaitingForResponse :: bool
  messageMetadata :: "(string \<rightharpoonup> msg_data) option"
  currentFeedbackMessageId :: "string option"
  currentFeedbackRating :: nat
  ids_generated :: nat
  welcome_display :: string
  messages_display :: string
  messages_container :: "element list"
  conversation_title :: string
  conversations_list :: list_view
  message_input :: string
  send_btn_disabled :: bool
  modal_display :: string
  modal_relevance :: string
  modal_accuracy :: string
  modal_comments :: string
  toasts :: nat
  alerts :: "string list"
  console_errors :: "string list"
  uncaught :: "string list"
  thrown :: "string option"
  downloads :: "string list"
  requests :: "request list"
  pending :: "cont list"

text \<open>
  The chat page. The first five fields are the script's variables
  (\<^verbatim>\<open>window.messageMetadata\<close> is \<open>None\<close> until the first assistant message creates the
  object); \<open>ids_generated\<close> counts the message identifiers generated so far. Then the
  parts of the document the script writes: the \<^verbatim>\<open>display\<close> of the welcome screen and of
  the messages container, the container's children, the text of the title heading, the
  conversation list, the input box, the send button, the feedback form, and the number
  of toasts shown. Last, what the script did to its environment: the alerts shown, the
  labels of the \<^verbatim>\<open>console.error\<close> calls, the messages of exceptions no handler caught,
  the message of the exception the function called last ended with (\<open>None\<close> when it
  returned, and after a \<^verbatim>\<open>catch\<close> block took the exception), the files handed to the browser for download, the network calls issued, in order, and
  the suspended functions that wait for a call to settle. \<^verbatim>\<open>loadSystemStatus\<close> and
  \<^verbatim>\<open>loadExamplePrompts\<close> write only the status line and the example cards, which no
  other function reads, and are not modelled.
\<close>

section \<open>The chat page: rendering\<close>

fun escapeHtml :: "string \<Rightarrow> string" where
  "escapeHtml [] = []"
| "escapeHtml (c # cs) =
     (if c = CHR ''&'' then ''&amp;''
      else if c = CHR 0xA0 then ''&nbsp;''
      else if c = CHR ''<'' then ''&lt;''
      else if c = CHR ''>'' then ''&gt;''
      else [c]) @ escapeHtml cs"

text \<open>
  The chat page's \<^verbatim>\<open>escapeHtml\<close> sets the text as \<^verbatim>\<open>textContent\<close> of a fresh element
  and reads \<^verbatim>\<open>innerHTML\<close> back: the browser's serialisation of a text node, which
  replaces the ampersand, the no-break space and the two angle brackets, and leaves
  both quote characters as they are.
\<close>

definition time_text :: "browser \<Rightarrow> string option \<Rightarrow> string" where
  \<comment> \<open>\<^verbatim>\<open>timestamp ? new Date(timestamp).toLocaleTimeString() : new Date().toLocaleTimeString()\<close>\<close>
  "time_text c ts =
     (case ts of None \<Rightarrow> time_now c | Some t \<Rightarrow> if t = [] then time_now c else time_of c t)"

definition append_child :: "element \<Rightarrow> state \<Rightarrow> state" where
  \<comment> \<open>\<^verbatim>\<open>container.insertAdjacentHTML('beforeend', ...)\<close> of markup with one root element.\<close>
  "append_child e s = s\<lparr>messages_container := messages_container s @ [e]\<rparr>"

definition appendUserMessage :: "browser \<Rightarrow> string \<Rightarrow> string option \<Rightarrow> state \<Rightarrow> state" where
  "appendUserMessage c text ts s =
     append_child (UserMessage (time_text c ts) (escapeHtml text)) s"

definition render_evidence :: "evidence_item list \<Rightarrow> evidence_view list" where
  \<comment> \<open>\<^verbatim>\<open>metadata.evidence.slice(0, 3).map((e, i) => ...)\<close>\<close>
  "render_evidence es =
     map (\<lambda>(i, e). \<lparr>ev_number = i + 1,
                     ev_actor = escapeHtml (or_else (actor e) ''Unknown''),
                     ev_source = escapeHtml (source e),
                     ev_text = escapeHtml (evidence_text e)\<rparr>)
         (enumerate 0 (take 3 es))"

definition evidence_block :: "metadata \<Rightarrow> (nat \<times> evidence_view list) option" where
  \<comment> \<open>\<^verbatim>\<open>if (metadata.evidence && metadata.evidence.length > 0)\<close>: the badge shows
      \<^verbatim>\<open>metadata.evidence.length\<close>.\<close>
  "evidence_block md =
     (case evidence md of
        None \<Rightarrow> None
      | Some es \<Rightarrow> if length es > 0 then Some (length es, render_evidence es) else None)"

definition appendAssistantMessage ::
  "(nat \<Rightarrow> string) \<Rightarrow> browser \<Rightarrow> string \<Rightarrow> metadata nullable \<Rightarrow> string option \<Rightarrow> state \<Rightarrow> state" where
  "appendAssistantMessage gen c text md ts s =
     (let meta = (case md of Undefined \<Rightarrow> Some empty_metadata | Null \<Rightarrow> None | Obj m \<Rightarrow> Some m);
          messageId = gen (ids_generated s);
          registry = (case messageMetadata s of None \<Rightarrow> Map.empty | Some r \<Rightarrow> r);
          s1 = s\<lparr>ids_generated := Suc (ids_generated s),
                 messageMetadata :=
                   Some (registry(messageId \<mapsto> \<lparr>md_content = text, md_metadata = meta\<rparr>))\<rparr>
      in case meta of
           None \<Rightarrow> s1\<lparr>thrown := Some (type_error c ''null'' ''evidence'')\<rparr>
         | Some m \<Rightarrow>
             (append_child
                (AssistantMessage (time_text c ts) (escapeHtml text) (evidence_block m)
                   messageId None)
                s1)\<lparr>thrown := None\<rparr>)"

text \<open>
  \<open>gen n\<close> is the identifier the \<open>n\<close>-th call generates:
  \<^verbatim>\<open>'msg-' + Date.now() + '-' + Math.random().toString(36).substr(2, 9)\<close>; it starts
  with \<^verbatim>\<open>msg-\<close>. The default \<^verbatim>\<open>{}\<close> of the parameter \<^verbatim>\<open>metadata\<close> stands in for a missing
  argument only. With \<^verbatim>\<open>null\<close> the entry is written with \<^verbatim>\<open>metadata: null\<close>, then
  \<^verbatim>\<open>metadata.evidence\<close> raises a TypeError, and nothing is inserted.
\<close>

definition appendErrorMessage :: "browser \<Rightarrow> string \<Rightarrow> state \<Rightarrow> state" where
  "appendErrorMessage c err s = append_child (ErrorMessage (time_now c) (escapeHtml err)) s"

definition appendTypingIndicator :: "state \<Rightarrow> state" where
  "appendTypingIndicator s = append_child TypingMessage s"

definition removeTypingIndicator :: "state \<Rightarrow> state" where
  \<comment> \<open>\<^verbatim>\<open>document.querySelector('.typing-message')\<close>: the first one, removed when there is one.\<close>
  "removeTypingIndicator s =
     s\<lparr>messages_container := remove1 TypingMessage (messages_container s)\<rparr>"

section \<open>The chat page: operations\<close>

definition report :: "string \<Rightarrow> string \<Rightarrow> state \<Rightarrow> state" where
  \<comment> \<open>A handler's \<^verbatim>\<open>console.error(label, error); alert(text)\<close>.\<close>
  "report label shown s =
     s\<lparr>alerts := alerts s @ [shown], console_errors := console_errors s @ [label]\<rparr>"

definition log_error :: "string \<Rightarrow> state \<Rightarrow> state" where
  \<comment> \<open>A handler that only calls \<^verbatim>\<open>console.error\<close>.\<close>
  "log_error label s = s\<lparr>console_errors := console_errors s @ [label]\<rparr>"

definition issue :: "request \<Rightarrow> cont \<Rightarrow> state \<Rightarrow> state" where
  \<comment> \<open>\<^verbatim>\<open>await fetch(...)\<close>: the call is issued and the rest of the function waits.\<close>
  "issue r k s = s\<lparr>requests := requests s @ [r], pending := pending s @ [k]\<rparr>"

definition loadConversations :: "state \<Rightarrow> state" where
  "loadConversations s = issue GetConversations LoadConversationsK s"

definition loadConversations_resume :: "conv_summary list fetched \<Rightarrow> state \<Rightarrow> state" where
  "loadConversations_resume r s =
     (case r of
        Rejected m \<Rightarrow> log_error ''Error loading conversations:'' s
      | Responded ok convs \<Rightarrow>
          if length convs = 0 then s\<lparr>conversations_list := EmptyConversations\<rparr>
          else s\<lparr>conversations_list := ConversationItems
                 (map (\<lambda>conv. \<lparr>item_id = conv_id conv,
                                 item_title = escapeHtml (conv_title conv),
                                 item_active = (Some (conv_id conv) = currentConversationId s)\<rparr>)
                      convs)\<rparr>)"

definition createNewChat :: "state \<Rightarrow> state" where
  "createNewChat s = issue (PostConversations ''New Chat'') CreateNewChatK s"

definition createNewChat_resume :: "string option fetched \<Rightarrow> state \<Rightarrow> state" where
  \<comment> \<open>The body is \<^verbatim>\<open>data.conversation_id\<close>.\<close>
  "createNewChat_resume r s =
     (case r of
        Rejected m \<Rightarrow> report ''Error creating conversation:'' ''Error creating new chat'' s
      | Responded ok conversation_id \<Rightarrow>
          loadConversations
            (s\<lparr>currentConversationId := conversation_id,
               welcome_display := ''flex'',
               messages_display := ''none'',
               messages_container := [],
               conversation_title := ''Threat Intelligence Chat''\<rparr>))"

fun render_messages :: "(nat \<Rightarrow> string) \<Rightarrow> browser \<Rightarrow> message list \<Rightarrow> state \<Rightarrow> state" where
  "render_messages gen c [] s = s\<lparr>thrown := None\<rparr>"
| "render_messages gen c (msg # msgs) s =
     (if role msg = ''user''
      then render_messages gen c msgs (appendUserMessage c (content msg) (timestamp msg) s)
      else
        (let s' = appendAssistantMessage gen c (content msg) (msg_metadata msg) (timestamp msg) s
         in case thrown s' of
              Some e \<Rightarrow> s'
            | None \<Rightarrow> render_messages gen c msgs s'))"

text \<open>
  \<^verbatim>\<open>conversation.messages.forEach\<close>: an exception of \<open>appendAssistantMessage\<close> ends the
  loop, and the messages after it are not rendered.
\<close>

definition loadConversation :: "string \<Rightarrow> state \<Rightarrow> state" where
  "loadConversation convId s = issue (GetConversation convId) (LoadConversationK convId) s"

definition loadConversation_resume ::
  "(nat \<Rightarrow> string) \<Rightarrow> browser \<Rightarrow> string \<Rightarrow> conversation fetched \<Rightarrow> state \<Rightarrow> state" where
  "loadConversation_resume gen c convId r s =
     (case r of
        Rejected m \<Rightarrow> report ''Error loading conversation:'' ''Error loading conversation'' s
      | Responded ok conv \<Rightarrow>
          (let s1 = s\<lparr>currentConversationId := Some convId,
                      welcome_display := ''none'',
                      messages_display := ''block'',
                      conversation_title := (case title conv of None \<Rightarrow> [] | Some t \<Rightarrow> t),
                      messages_container := []\<rparr>
           in case messages conv of
                None \<Rightarrow> report ''Error loading conversation:'' ''Error loading conversation'' s1
              | Some msgs \<Rightarrow>
                  (let s2 = render_messages gen c msgs s1
                   in case thrown s2 of
                        Some e \<Rightarrow>
                          report ''Error loading conversation:'' ''Error loading conversation''
                            (s2\<lparr>thrown := None\<rparr>)
                      | None \<Rightarrow> loadConversations s2)))"

text \<open>
  \<open>loadConversation_resume\<close> does not read \<^verbatim>\<open>response.ok\<close>. When the body has no
  \<^verbatim>\<open>messages\<close>, \<^verbatim>\<open>conversation.messages.forEach\<close> raises a TypeError, which the handler
  reports; the assignments before it stay. An exception of \<open>appendAssistantMessage\<close> is
  reported in the same way, and the list of conversations is not fetched. Assigning \<^verbatim>\<open>undefined\<close> to \<^verbatim>\<open>textContent\<close>
  empties the heading.
\<close>

definition deleteConversation :: "bool \<Rightarrow> string \<Rightarrow> state \<Rightarrow> state" where
  \<comment> \<open>\<open>confirmed\<close> is the answer to \<^verbatim>\<open>confirm('Delete this conversation?')\<close>.\<close>
  "deleteConversation confirmed convId s =
     (if \<not> confirmed then s
      else issue (DeleteConversation convId) (DeleteConversationK convId) s)"

definition deleteConversation_resume :: "string \<Rightarrow> unit fetched \<Rightarrow> state \<Rightarrow> state" where
  "deleteConversation_resume convId r s =
     (case r of
        Rejected m \<Rightarrow> report ''Error deleting conversation:'' ''Error deleting conversation'' s
      | Responded ok u \<Rightarrow>
          if Some convId = currentConversationId s then createNewChat s
          else loadConversations s)"

definition sendMessage :: "browser \<Rightarrow> state \<Rightarrow> state" where
  "sendMessage c s =
     (let message = trim (message_input s) in
      if message = [] \<or> isWaitingForResponse s then s
      else
        (let s1 = (if welcome_display s \<noteq> ''none''
                   then s\<lparr>welcome_display := ''none'', messages_display := ''block''\<rparr>
                   else s);
             s2 = s1\<lparr>message_input := []\<rparr>;
             s3 = appendUserMessage c message None s2;
             s4 = appendTypingIndicator s3;
             s5 = s4\<lparr>isWaitingForResponse := True, send_btn_disabled := True\<rparr>
         in issue (PostMessage (currentConversationId s5) message) SendMessageK s5))"

definition sendMessage_resume ::
  "(nat \<Rightarrow> string) \<Rightarrow> browser \<Rightarrow> chat_reply fetched \<Rightarrow> state \<Rightarrow> state" where
  "sendMessage_resume gen c r s =
     (let s' =
        (case r of
           Rejected m \<Rightarrow>
             appendErrorMessage c (''Connection error: '' @ m) (removeTypingIndicator s)
         | Responded ok data \<Rightarrow>
             (let s1 = removeTypingIndicator s in
              if ok then
                (let s2 = appendAssistantMessage gen c (assistant_message data)
                            (reply_metadata data) None s1
                 in case thrown s2 of
                      Some e \<Rightarrow>
                        appendErrorMessage c (''Connection error: '' @ e)
                          (removeTypingIndicator (s2\<lparr>thrown := None\<rparr>))
                    | None \<Rightarrow>
                        loadConversations
                          (s2\<lparr>conversation_title := take 50 (assistant_message data)\<rparr>))
              else appendErrorMessage c (or_else (reply_error data) ''Unknown error'') s1))
      in s'\<lparr>isWaitingForResponse := False, send_btn_disabled := False\<rparr>)"

text \<open>
  In \<open>sendMessage_resume\<close> an exception of \<open>appendAssistantMessage\<close> goes to the
  \<^verbatim>\<open>catch\<close> block, as a rejected call does: the indicator is looked for again and the
  error entry is appended.
\<close>

definition useExample :: "browser \<Rightarrow> string \<Rightarrow> state \<Rightarrow> state" where
  "useExample c prompt s = sendMessage c (s\<lparr>message_input := prompt\<rparr>)"

definition inherited :: "string \<Rightarrow> bool" where
  \<comment> \<open>The property names every object has from \<^verbatim>\<open>Object.prototype\<close>.\<close>
  "inherited k =
     (k \<in> set [''constructor'', ''__proto__'', ''hasOwnProperty'', ''isPrototypeOf'',
                ''propertyIsEnumerable'', ''toLocaleString'', ''toString'', ''valueOf'',
                ''__defineGetter__'', ''__defineSetter__'', ''__lookupGetter__'',
                ''__lookupSetter__''])"

datatype lookup =
    Absent
  | Inherited
  | Entry msg_data

definition read_entry :: "(string \<rightharpoonup> msg_data) \<Rightarrow> string \<Rightarrow> lookup" where
  "read_entry registry messageId =
     (case registry messageId of
        Some msgData \<Rightarrow> Entry msgData
      | None \<Rightarrow> if inherited messageId then Inherited else Absent)"

text \<open>
  \<^verbatim>\<open>window.messageMetadata[messageId]\<close> on the registry, a plain object: the entry stored
  under the identifier; else, for a name of \<^verbatim>\<open>Object.prototype\<close>, the inherited value,
  which is truthy and has neither \<^verbatim>\<open>content\<close> nor \<^verbatim>\<open>metadata\<close>; else \<^verbatim>\<open>undefined\<close>.
\<close>

definition export_of :: "browser \<Rightarrow> string \<Rightarrow> metadata \<Rightarrow> export_body" where
  \<comment> \<open>The \<^verbatim>\<open>result\<close> object both export functions post, from the content and the
      metadata of an entry.\<close>
  "export_of c answer meta =
     \<lparr>x_query = ''Chat Export'',
      x_answer = answer,
      x_evidence = (case evidence meta of None \<Rightarrow> [] | Some es \<Rightarrow> es),
      x_confidence = or_number (confidence meta) 0,
      x_model = or_else (model meta) ''Unknown'',
      x_trace_id = or_else (trace_id meta) [],
      x_source_count = or_number (source_count meta) 0,
      x_timestamp = iso_now c\<rparr>"

definition exportMessagePDF :: "browser \<Rightarrow> string \<Rightarrow> state \<Rightarrow> state" where
  "exportMessagePDF c messageId s =
     (case messageMetadata s of
        None \<Rightarrow> report ''Error exporting PDF:''
                  (''Error exporting PDF: '' @ type_error c ''undefined'' messageId) s
      | Some registry \<Rightarrow>
          (case read_entry registry messageId of
             Absent \<Rightarrow> report ''Error exporting PDF:''
                         ''Error exporting PDF: Message data not found'' s
           | Inherited \<Rightarrow> report ''Error exporting PDF:''
                            (''Error exporting PDF: '' @ type_error c ''undefined'' ''evidence'') s
           | Entry msgData \<Rightarrow>
               (case md_metadata msgData of
                  None \<Rightarrow> report ''Error exporting PDF:''
                            (''Error exporting PDF: '' @ type_error c ''null'' ''evidence'') s
                | Some meta \<Rightarrow>
                    issue (PostExport ''pdf'' (export_of c (md_content msgData) meta))
                      ExportMessagePDFK s)))"

text \<open>
  Both export functions read the registry inside their \<^verbatim>\<open>try\<close>. The first property the
  request body reads from the metadata is \<^verbatim>\<open>evidence\<close>: where the metadata is
  \<^verbatim>\<open>undefined\<close> or \<^verbatim>\<open>null\<close> that read raises, before \<^verbatim>\<open>fetch\<close> is called.
\<close>

definition exportMessagePDF_resume :: "browser \<Rightarrow> unit fetched \<Rightarrow> state \<Rightarrow> state" where
  "exportMessagePDF_resume c r s =
     (case r of
        Rejected m \<Rightarrow> report ''Error exporting PDF:'' (''Error exporting PDF: '' @ m) s
      | Responded ok blob \<Rightarrow>
          if \<not> ok then report ''Error exporting PDF:'' ''Error exporting PDF: Export failed'' s
          else s\<lparr>downloads := downloads s @ [''threat-ai-report-'' @ millis_now c @ ''.pdf'']\<rparr>)"

definition exportMessageCSV :: "browser \<Rightarrow> string \<Rightarrow> state \<Rightarrow> state" where
  "exportMessageCSV c messageId s =
     (case messageMetadata s of
        None \<Rightarrow> report ''Error exporting CSV:''
                  (''Error exporting CSV: '' @ type_error c ''undefined'' messageId) s
      | Some registry \<Rightarrow>
          (case read_entry registry messageId of
             Absent \<Rightarrow> report ''Error exporting CSV:''
                         ''Error exporting CSV: Message data not found'' s
           | Inherited \<Rightarrow> report ''Error exporting CSV:''
                            (''Error exporting CSV: '' @ type_error c ''undefined'' ''evidence'') s
           | Entry msgData \<Rightarrow>
               (case md_metadata msgData of
                  None \<Rightarrow> report ''Error exporting CSV:''
                            (''Error exporting CSV: '' @ type_error c ''null'' ''evidence'') s
                | Some meta \<Rightarrow>
                    issue (PostExport ''csv'' (export_of c (md_content msgData) meta))
                      ExportMessageCSVK s)))"

definition exportMessageCSV_resume :: "browser \<Rightarrow> unit fetched \<Rightarrow> state \<Rightarrow> state" where
  "exportMessageCSV_resume c r s =
     (case r of
        Rejected m \<Rightarrow> report ''Error exporting CSV:'' (''Error exporting CSV: '' @ m) s
      | Responded ok blob \<Rightarrow>
          if \<not> ok then report ''Error exporting CSV:'' ''Error exporting CSV: Export failed'' s
          else s\<lparr>downloads := downloads s @ [''threat-ai-export-'' @ millis_now c @ ''.csv'']\<rparr>)"

fun mark_thumb :: "string \<Rightarrow> string \<Rightarrow> element \<Rightarrow> element" where
  "mark_thumb messageId kind (AssistantMessage t x ev i a) =
     (if i = messageId then AssistantMessage t x ev i (Some kind) else AssistantMessage t x ev i a)"
| "mark_thumb messageId kind e = e"

definition mark_thumbs :: "string \<Rightarrow> string \<Rightarrow> state \<Rightarrow> state" where
  "mark_thumbs messageId kind s =
     s\<lparr>messages_container := map (mark_thumb messageId kind) (messages_container s)\<rparr>"

definition quickFeedback :: "browser \<Rightarrow> string \<Rightarrow> string \<Rightarrow> state \<Rightarrow> state" where
  "quickFeedback c messageId kind s =
     (case messageMetadata s of
        None \<Rightarrow> s\<lparr>uncaught := uncaught s @ [type_error c ''undefined'' messageId]\<rparr>
      | Some registry \<Rightarrow>
          (case read_entry registry messageId of
             Absent \<Rightarrow> s
           | Inherited \<Rightarrow>
               log_error ''Error submitting quick feedback:'' (mark_thumbs messageId kind s)
           | Entry msgData \<Rightarrow>
               (case md_metadata msgData of
                  None \<Rightarrow>
                    log_error ''Error submitting quick feedback:'' (mark_thumbs messageId kind s)
                | Some meta \<Rightarrow>
                    issue
                      (PostFeedback
                         \<lparr>fb_query = ''Chat message'',
                          fb_answer = md_content msgData,
                          fb_rating = (if kind = ''positive'' then 5 else 1),
                          fb_relevance =
                            (if kind = ''positive'' then ''relevant'' else ''not_relevant''),
                          fb_accuracy = [],
                          fb_comments = ''Quick feedback: '' @ kind,
                          fb_trace_id = or_else (trace_id meta) [],
                          fb_evidence_count = None\<rparr>)
                      QuickFeedbackK (mark_thumbs messageId kind s))))"

text \<open>
  \<open>quickFeedback\<close> runs as the click handler of a thumb button, so \<^verbatim>\<open>event.target\<close> is
  the button of the message whose identifier the handler was rendered with: the thumbs
  of that message lose the class \<^verbatim>\<open>active\<close> and the clicked one gets it. The registry
  is read outside the \<^verbatim>\<open>try\<close>: on a missing registry object the TypeError is caught by
  nobody. Inside the \<^verbatim>\<open>try\<close>, the request body reads \<^verbatim>\<open>msgData.metadata.trace_id\<close>:
  where the metadata is \<^verbatim>\<open>undefined\<close> or \<^verbatim>\<open>null\<close> that read raises before \<^verbatim>\<open>fetch\<close> is
  called, and the handler only logs it.
\<close>

definition quickFeedback_resume :: "unit fetched \<Rightarrow> state \<Rightarrow> state" where
  "quickFeedback_resume r s =
     (case r of
        Rejected m \<Rightarrow> log_error ''Error submitting quick feedback:'' s
      | Responded ok u \<Rightarrow> s)"

definition openFeedbackModal :: "string \<Rightarrow> state \<Rightarrow> state" where
  "openFeedbackModal messageId s =
     s\<lparr>currentFeedbackMessageId := Some messageId,
       currentFeedbackRating := 0,
       modal_relevance := [],
       modal_accuracy := [],
       modal_comments := [],
       modal_display := ''flex''\<rparr>"

definition closeFeedbackModal :: "state \<Rightarrow> state" where
  "closeFeedbackModal s =
     s\<lparr>modal_display := ''none'', currentFeedbackMessageId := None, currentFeedbackRating := 0\<rparr>"

definition setModalRating :: "nat \<Rightarrow> state \<Rightarrow> state" where
  "setModalRating rating s = s\<lparr>currentFeedbackRating := rating\<rparr>"

definition nothing_filled :: "state \<Rightarrow> bool" where
  \<comment> \<open>\<^verbatim>\<open>currentFeedbackRating === 0 && !relevance && !accuracy && !comments\<close>\<close>
  "nothing_filled s =
     (currentFeedbackRating s = 0 \<and> modal_relevance s = [] \<and> modal_accuracy s = [] \<and>
      modal_comments s = [])"

definition submitFeedback :: "browser \<Rightarrow> state \<Rightarrow> state" where
  "submitFeedback c s =
     (case currentFeedbackMessageId s of
        None \<Rightarrow> s
      | Some messageId \<Rightarrow>
          if messageId = [] then s
          else
            (case messageMetadata s of
               None \<Rightarrow> s\<lparr>uncaught := uncaught s @ [type_error c ''undefined'' messageId]\<rparr>
             | Some registry \<Rightarrow>
                 (case read_entry registry messageId of
                    Absent \<Rightarrow> s\<lparr>alerts := alerts s @ [''Message data not found'']\<rparr>
                  | Inherited \<Rightarrow>
                      if nothing_filled s
                      then s\<lparr>alerts := alerts s @
                                [''Please provide at least one piece of feedback'']\<rparr>
                      else report ''Error submitting feedback:''
                             (''Error submitting feedback: '' @
                                type_error c ''undefined'' ''trace_id'') s
                  | Entry msgData \<Rightarrow>
                      if nothing_filled s
                      then s\<lparr>alerts := alerts s @
                                [''Please provide at least one piece of feedback'']\<rparr>
                      else
                        (case md_metadata msgData of
                           None \<Rightarrow>
                             report ''Error submitting feedback:''
                               (''Error submitting feedback: '' @
                                  type_error c ''null'' ''trace_id'') s
                         | Some meta \<Rightarrow>
                             issue
                               (PostFeedback
                                  \<lparr>fb_query = ''Chat message'',
                                   fb_answer = md_content msgData,
                                   fb_rating = currentFeedbackRating s,
                                   fb_relevance = modal_relevance s,
                                   fb_accuracy = modal_accuracy s,
                                   fb_comments = modal_comments s,
                                   fb_trace_id = or_else (trace_id meta) [],
                                   fb_evidence_count =
                                     Some (case evidence meta of
                                             None \<Rightarrow> 0 | Some es \<Rightarrow> length es)\<rparr>)
                               SubmitFeedbackK s))))"

text \<open>
  \<open>submitFeedback\<close> reads the registry before its \<^verbatim>\<open>try\<close>, as \<open>quickFeedback\<close> does,
  and the metadata inside it.
\<close>

definition submitFeedback_resume :: "unit fetched \<Rightarrow> state \<Rightarrow> state" where
  "submitFeedback_resume r s =
     (case r of
        Rejected m \<Rightarrow> report ''Error submitting feedback:'' (''Error submitting feedback: '' @ m) s
      | Responded ok u \<Rightarrow>
          if ok then (closeFeedbackModal s)\<lparr>toasts := Suc (toasts s)\<rparr>
          else s\<lparr>alerts := alerts s @ [''Error submitting feedback'']\<rparr>)"

section \<open>The chat page: the runs of the page\<close>

definition settle :: "cont \<Rightarrow> state \<Rightarrow> state" where
  \<comment> \<open>The awaited call of one suspended function settles.\<close>
  "settle k s = s\<lparr>pending := remove1 k (pending s)\<rparr>"

inductive step :: "(nat \<Rightarrow> string) \<Rightarrow> state \<Rightarrow> state \<Rightarrow> bool" for gen :: "nat \<Rightarrow> string" where
  type_input: "step gen s (s\<lparr>message_input := v\<rparr>)"
| fill_relevance: "step gen s (s\<lparr>modal_relevance := v\<rparr>)"
| fill_accuracy: "step gen s (s\<lparr>modal_accuracy := v\<rparr>)"
| fill_comments: "step gen s (s\<lparr>modal_comments := v\<rparr>)"
| call_loadConversations: "step gen s (loadConversations s)"
| call_createNewChat: "step gen s (createNewChat s)"
| call_loadConversation: "step gen s (loadConversation convId s)"
| call_deleteConversation: "step gen s (deleteConversation confirmed convId s)"
| call_sendMessage: "step gen s (sendMessage c s)"
| call_useExample: "step gen s (useExample c prompt s)"
| call_exportMessagePDF: "step gen s (exportMessagePDF c messageId s)"
| call_exportMessageCSV: "step gen s (exportMessageCSV c messageId s)"
| call_quickFeedback: "step gen s (quickFeedback c messageId kind s)"
| call_openFeedbackModal: "step gen s (openFeedbackModal messageId s)"
| call_closeFeedbackModal: "step gen s (closeFeedbackModal s)"
| call_setModalRating: "step gen s (setModalRating rating s)"
| call_submitFeedback: "step gen s (submitFeedback c s)"
| resume_loadConversations:
    "LoadConversationsK \<in> set (pending s) \<Longrightarrow>
     step gen s (loadConversations_resume r1 (settle LoadConversationsK s))"
| resume_createNewChat:
    "CreateNewChatK \<in> set (pending s) \<Longrightarrow>
     step gen s (createNewChat_resume r2 (settle CreateNewChatK s))"
| resume_loadConversation:
    "LoadConversationK convId \<in> set (pending s) \<Longrightarrow>
     step gen s (loadConversation_resume gen c convId r3 (settle (LoadConversationK convId) s))"
| resume_deleteConversation:
    "DeleteConversationK convId \<in> set (pending s) \<Longrightarrow>
     step gen s (deleteConversation_resume convId r4 (settle (DeleteConversationK convId) s))"
| resume_sendMessage:
    "SendMessageK \<in> set (pending s) \<Longrightarrow>
     step gen s (sendMessage_resume gen c r5 (settle SendMessageK s))"
| resume_exportMessagePDF:
    "ExportMessagePDFK \<in> set (pending s) \<Longrightarrow>
     step gen s (exportMessagePDF_resume c r6 (settle ExportMessagePDFK s))"
| resume_exportMessageCSV:
    "ExportMessageCSVK \<in> set (pending s) \<Longrightarrow>
     step gen s (exportMessageCSV_resume c r6 (settle ExportMessageCSVK s))"
| resume_quickFeedback:
    "QuickFeedbackK \<in> set (pending s) \<Longrightarrow>
     step gen s (quickFeedback_resume r6 (settle QuickFeedbackK s))"
| resume_submitFeedback:
    "SubmitFeedbackK \<in> set (pending s) \<Longrightarrow>
     step gen s (submitFeedback_resume r6 (settle SubmitFeedbackK s))"

text \<open>
  One step of the page: the user edits a field, a handler is called and runs to its
  first \<^verbatim>\<open>await\<close>, or the call a suspended function waits for settles, with any
  result, and the function runs to its end. \<open>gen\<close> is the sequence of generated message
  identifiers.
\<close>

definition page_loaded :: "state \<Rightarrow> bool" where
  "page_loaded s =
     (currentConversationId s = None \<and> \<not> isWaitingForResponse s \<and> messageMetadata s = None \<and>
      currentFeedbackMessageId s = None \<and> currentFeedbackRating s = 0 \<and> ids_generated s = 0 \<and>
      messages_container s = [] \<and> alerts s = [] \<and> console_errors s = [] \<and> uncaught s = [] \<and>
      thrown s = None \<and> downloads s = [] \<and> requests s = [] \<and> pending s = [])"

text \<open>
  The page before its first handler runs: the script's variables have their initial
  values, nothing was issued, and the messages container of the page's markup (which is
  not among the sources) has no message in it.
\<close>

definition reachable :: "(nat \<Rightarrow> string) \<Rightarrow> state \<Rightarrow> bool" where
  "reachable gen s = (\<exists>s0. page_loaded s0 \<and> (step gen)\<^sup>*\<^sup>* s0 s)"

definition sends_in_flight :: "state \<Rightarrow> nat" where
  "sends_in_flight s = length (filter (\<lambda>k. k = SendMessageK) (pending s))"

section \<open>The query page\<close>

record result =
  r_query :: string
  r_answer :: string
  r_confidence :: "number option"
  r_evidence :: "evidence_item list option"
  r_model :: string
  r_source_count :: "number option"
  r_timestamp :: string
  r_trace_id :: "string option"
  r_error :: "string option"

text \<open>
  The parsed body of the answer to \<^verbatim>\<open>POST /api/query\<close>: the fields of a result, and
  \<^verbatim>\<open>error\<close> on a failure.
\<close>

record printing =
  toFixed :: "nat \<Rightarrow> number \<Rightarrow> string"
  toLocaleTimeString :: "string \<Rightarrow> string"

definition escapeHtml_app :: "string \<Rightarrow> string" where
  "escapeHtml_app s =
     concat (map (\<lambda>m. if m = CHR ''&'' then ''&amp;''
                       else if m = CHR ''<'' then ''&lt;''
                       else if m = CHR ''>'' then ''&gt;''
                       else if m = CHR 0x22 then ''&quot;''
                       else if m = CHR 0x27 then ''&#039;''
                       else [m]) s)"

text \<open>
  \<^verbatim>\<open>app.js\<close> declares \<^verbatim>\<open>escapeHtml\<close> twice; the later declaration, which replaces each
  of the five characters by its entity, is the one every call in the script reaches.
\<close>

record evidence_row =
  row_number :: nat
  row_actor :: string
  row_source :: string
  row_score :: string
  row_text :: string

record result_card =
  card_query :: string
  card_confidence :: string
  card_answer :: string
  card_evidence :: "(nat \<times> evidence_row list) option"
  card_model :: string
  card_sources :: "number option"
  card_timestamp :: string
  card_trace :: "string option"

text \<open>
  What \<open>displayResults\<close> interpolates into the markup it assigns to \<^verbatim>\<open>innerHTML\<close>, in
  the order of the template: each field is the text put between the tags as it is, so
  the browser reads it as markup.
\<close>

datatype results_view =
    Loading
  | ErrorBox string
  | ResultCard result_card

text \<open>
  The content of the \<^verbatim>\<open>results\<close> element after the script wrote it: the spinner, the
  error box with the text put after \<^verbatim>\<open>Error:\<close>, or the result card followed by the
  export buttons.
\<close>

record app_state =
  lastResult :: "result option"
  query_input :: string
  results :: "results_view option"
  submit_btn_disabled :: bool
  center_display :: string
  results_area_display :: string
  feedback_display :: string
  feedback_relevance :: string
  feedback_accuracy :: string
  feedback_comments :: string
  queries_posted :: "string list"

definition showError :: "string \<Rightarrow> app_state \<Rightarrow> app_state" where
  "showError message s = s\<lparr>results := Some (ErrorBox (escapeHtml_app message))\<rparr>"

definition evidence_rows :: "printing \<Rightarrow> evidence_item list \<Rightarrow> evidence_row list" where
  \<comment> \<open>\<^verbatim>\<open>result.evidence.forEach((e, i) => ...)\<close>\<close>
  "evidence_rows p es =
     map (\<lambda>(i, e). \<lparr>row_number = i + 1,
                     row_actor = escapeHtml_app (or_else (actor e) ''Unknown''),
                     row_source = escapeHtml_app (source e),
                     row_score = toFixed p 3 (score e),
                     row_text = escapeHtml_app (evidence_text e)\<rparr>)
         (enumerate 0 es)"

definition result_markup :: "printing \<Rightarrow> result \<Rightarrow> result_card" where
  \<comment> \<open>The string \<^verbatim>\<open>html\<close> that \<open>displayResults\<close> builds.\<close>
  "result_markup p result =
     \<lparr>card_query = escapeHtml_app (r_query result),
      card_confidence = toFixed p 1 (or_number (r_confidence result) 0 * 100),
      card_answer = escapeHtml_app (r_answer result),
      card_evidence =
        (case r_evidence result of
           None \<Rightarrow> None
         | Some es \<Rightarrow> if length es > 0 then Some (length es, evidence_rows p es) else None),
      card_model = escapeHtml_app (r_model result),
      card_sources = r_source_count result,
      card_timestamp = toLocaleTimeString p (r_timestamp result),
      card_trace =
        (case r_trace_id result of
           None \<Rightarrow> None
         | Some t \<Rightarrow> if t = [] then None else Some (take 8 t))\<rparr>"

definition displayResults :: "printing \<Rightarrow> result \<Rightarrow> app_state \<Rightarrow> app_state" where
  "displayResults p result s =
     s\<lparr>lastResult := Some result,
       center_display := ''none'',
       results_area_display := ''block'',
       results := Some (ResultCard (result_markup p result))\<rparr>"

definition showFeedbackSection :: "app_state \<Rightarrow> app_state" where
  \<comment> \<open>With \<open>resetFeedbackForm\<close>.\<close>
  "showFeedbackSection s =
     s\<lparr>feedback_display := ''block'', feedback_relevance := [], feedback_accuracy := [],
       feedback_comments := []\<rparr>"

definition submitQuery :: "app_state \<Rightarrow> app_state" where
  "submitQuery s =
     (let query = trim (query_input s) in
      if query = [] then showError ''Please enter a threat intelligence query'' s
      else s\<lparr>submit_btn_disabled := True,
             results := Some Loading,
             queries_posted := queries_posted s @ [query]\<rparr>)"

definition submitQuery_resume :: "printing \<Rightarrow> result fetched \<Rightarrow> app_state \<Rightarrow> app_state" where
  "submitQuery_resume p r s =
     (let s' =
        (case r of
           Rejected m \<Rightarrow> showError (''Connection error: '' @ m) s
         | Responded ok result \<Rightarrow>
             if \<not> ok then showError (or_else (r_error result) ''Unknown error occurred'') s
             else showFeedbackSection (displayResults p result s))
      in s'\<lparr>submit_btn_disabled := False\<rparr>)"

definition raw_special :: "string \<Rightarrow> bool" where
  \<comment> \<open>One of the five characters stands in the text as itself.\<close>
  "raw_special s = (\<exists>ch \<in> set s. ch \<in> set [CHR ''<'', CHR ''>'', CHR 0x22, CHR 0x27])"

section \<open>Properties of the states of the chat page\<close>

definition single_flight :: "state \<Rightarrow> bool" where
  \<comment> \<open>A send waits for its call exactly when the pending flag is set, and then only one.\<close>
  "single_flight s = (sends_in_flight s = (if isWaitingForResponse s then 1 else 0))"

definition typing_count :: "state \<Rightarrow> nat" where
  "typing_count s = length (filter (\<lambda>e. e = TypingMessage) (messages_container s))"

definition indicator_ok :: "state \<Rightarrow> bool" where
  \<comment> \<open>A typing indicator is shown only while a send waits, and then at most one.\<close>
  "indicator_ok s = (typing_count s \<le> (if isWaitingForResponse s then 1 else 0))"

definition registry :: "state \<Rightarrow> (string \<rightharpoonup> msg_data)" where
  \<comment> \<open>The entries of \<^verbatim>\<open>window.messageMetadata\<close>; none while the object does not exist.\<close>
  "registry s = (case messageMetadata s of None \<Rightarrow> Map.empty | Some r \<Rightarrow> r)"

fun message_ids :: "element list \<Rightarrow> string list" where
  "message_ids [] = []"
| "message_ids (AssistantMessage t x ev i a # es) = i # message_ids es"
| "message_ids (e # es) = message_ids es"

fun shows_entry :: "(string \<rightharpoonup> msg_data) \<Rightarrow> element \<Rightarrow> bool" where
  "shows_entry r (AssistantMessage t x ev i a) =
     (case r i of
        None \<Rightarrow> False
      | Some d \<Rightarrow>
          x = escapeHtml (md_content d) \<and>
          (case md_metadata d of None \<Rightarrow> False | Some m \<Rightarrow> ev = evidence_block m))"
| "shows_entry r e = True"

definition registered :: "state \<Rightarrow> bool" where
  \<comment> \<open>The assistant messages in the transcript carry pairwise different identifiers, and
      each shows the content and the evidence of the registry entry of its identifier.\<close>
  "registered s =
     (distinct (message_ids (messages_container s)) \<and>
      list_all (shows_entry (registry s)) (messages_container s))"

definition ids_in_use :: "(nat \<Rightarrow> string) \<Rightarrow> state \<Rightarrow> bool" where
  \<comment> \<open>The registry holds the identifiers generated so far and no other.\<close>
  "ids_in_use gen s = (dom (registry s) = gen ` {..<ids_generated s})"

definition registry_inv :: "(nat \<Rightarrow> string) \<Rightarrow> state \<Rightarrow> bool" where
  \<comment> \<open>What the runs of the page keep true of the registry when identifiers do not repeat.\<close>
  "registry_inv gen s = (registered s \<and> ids_in_use gen s)"

definition has_entries :: "state \<Rightarrow> bool" where
  \<comment> \<open>Every assistant message in the transcript has a registry entry under its identifier.\<close>
  "has_entries s = (set (message_ids (messages_container s)) \<subseteq> dom (registry s))"

section \<open>Concrete inputs\<close>

definition clock0 :: browser where
  "clock0 = \<lparr>time_now = ''10:15:00'', time_of = (\<lambda>t. t),
     iso_now = ''2024-01-01T10:15:00.000Z'', millis_now = ''1704104100000'',
     type_error = (\<lambda>b k. ''Cannot read properties of '' @ b @ '' (reading '' @ k @ '')'')\<rparr>"

definition gen0 :: "nat \<Rightarrow> string" where
  "gen0 n = ''msg-1704104100000-'' @ replicate (Suc n) (CHR ''a'')"

definition page0 :: state where
  "page0 =
     \<lparr>currentConversationId = None, isWaitingForResponse = False, messageMetadata = None,
      currentFeedbackMessageId = None, currentFeedbackRating = 0, ids_generated = 0,
      welcome_display = ''flex'', messages_display = ''none'', messages_container = [],
      conversation_title = ''Threat Intelligence Chat'', conversations_list = EmptyConversations,
      message_input = [], send_btn_disabled = False, modal_display = ''none'',
      modal_relevance = [], modal_accuracy = [], modal_comments = [], toasts = 0,
      alerts = [], console_errors = [], uncaught = [], thrown = None, downloads = [],
      requests = [], pending = []\<rparr>"

definition item0 :: "nat \<Rightarrow> evidence_item" where
  "item0 n = \<lparr>actor = (if n = 0 then None else Some ''APT28''), source = ''attack.mitre.org'',
     evidence_text = (if n < 2 then ''Spearphishing'' else ''Credential harvesting''),
     score = 1 / 2\<rparr>"

definition meta4 :: metadata where
  "meta4 = \<lparr>evidence = Some [item0 0, item0 1, item0 2, item0 3], confidence = Some (169 / 200),
     model = Some ''llama3'', trace_id = Some ''trace-1'', source_count = Some 4\<rparr>"

definition printing0 :: printing where
  "printing0 = \<lparr>toFixed = (\<lambda>n x. if n = 1 then ''84.5'' else ''0.500''),
     toLocaleTimeString = (\<lambda>t. t)\<rparr>"

definition result0 :: result where
  "result0 = \<lparr>r_query = ''What are common tactics used by APT28?'',
     r_answer = ''Spearphishing and credential harvesting.'',
     r_confidence = Some (169 / 200), r_evidence = Some [item0 1, item0 2],
     r_model = ''llama3 <8B>'', r_source_count = Some 2, r_timestamp = ''10:15:00'',
     r_trace_id = Some ''<script>alert(1)</script>'', r_error = None\<rparr>"

definition app0 :: app_state where
  "app0 = \<lparr>lastResult = None, query_input = [], results = None, submit_btn_disabled = False,
     center_display = ''flex'', results_area_display = ''none'', feedback_display = ''none'',
     feedback_relevance = [], feedback_accuracy = [], feedback_comments = [],
     queries_posted = []\<rparr>"

definition chat1 :: state where
  \<comment> \<open>The page after its first conversation was created.\<close>
  "chat1 = createNewChat_resume (Responded True (Some ''conv-1''))
             (settle CreateNewChatK (createNewChat page0))"

definition typed1 :: state where
  "typed1 = chat1\<lparr>message_input := ''  Describe Emotet ''\<rparr>"

definition sending1 :: state where
  "sending1 = sendMessage clock0 typed1"

definition reply0 :: chat_reply where
  "reply0 = \<lparr>assistant_message = ''Emotet is a banking trojan.'', reply_metadata = Obj meta4,
     reply_error = None\<rparr>"

definition reply1 :: chat_reply where
  "reply1 = \<lparr>assistant_message = ''It spreads through malicious attachments.'',
     reply_metadata = Undefined, reply_error = None\<rparr>"

definition failure0 :: chat_reply where
  "failure0 = \<lparr>assistant_message = [], reply_metadata = Undefined,
     reply_error = Some ''LLM timeout''\<rparr>"

definition answered1 :: state where
  "answered1 = sendMessage_resume gen0 clock0 (Responded True reply0)
     (settle SendMessageK sending1)"

definition answered2 :: state where
  "answered2 = sendMessage_resume gen0 clock0 (Responded True reply1)
     (settle SendMessageK
        (sendMessage clock0 (answered1\<lparr>message_input := ''How does it spread?''\<rparr>)))"

definition not_found :: conversation where
  \<comment> \<open>The body \<^verbatim>\<open>{"error": "Conversation not found"}\<close> of an error response.\<close>
  "not_found = \<lparr>title = None, messages = None\<rparr>"

definition switched1 :: state where
  "switched1 = loadConversation_resume gen0 clock0 ''conv-2'' (Responded False not_found)
     (settle (LoadConversationK ''conv-2'') (loadConversation ''conv-2'' answered1))"

definition blank1 :: state where
  "blank1 = chat1\<lparr>message_input := [CHR 0x20, CHR 0x09, CHR 0x20]\<rparr>"

definition deleted1 :: state where
  \<comment> \<open>The active conversation is deleted, and the call that creates its successor fails.\<close>
  "deleted1 = createNewChat_resume (Rejected ''Failed to fetch'')
     (settle CreateNewChatK
        (deleteConversation_resume ''conv-1'' (Responded True ())
           (settle (DeleteConversationK ''conv-1'')
              (deleteConversation True ''conv-1'' answered1))))"


definition asked1 :: state where
  \<comment> \<open>The feedback form, opened for an identifier the registry does not hold.\<close>
  "asked1 = openFeedbackModal ''msg-unknown'' answered1"

definition app_blank :: app_state where
  "app_blank = app0\<lparr>query_input := [CHR 0x20, CHR 0x20]\<rparr>"

definition failed1 :: state where
  \<comment> \<open>The send of \<open>sending1\<close>, answered by an error response.\<close>
  "failed1 = sendMessage_resume gen0 clock0 (Responded False failure0)
     (settle SendMessageK sending1)"

definition reply_null :: chat_reply where
  \<comment> \<open>The body \<^verbatim>\<open>{"assistant_message": "Emotet is a banking trojan.", "metadata": null}\<close>.\<close>
  "reply_null = \<lparr>assistant_message = ''Emotet is a banking trojan.'', reply_metadata = Null,
     reply_error = None\<rparr>"

definition orphaned1 :: state where
  \<comment> \<open>The send of \<open>sending1\<close>, answered by a reply whose metadata is \<^verbatim>\<open>null\<close>.\<close>
  "orphaned1 = sendMessage_resume gen0 clock0 (Responded True reply_null)
     (settle SendMessageK sending1)"

definition asked2 :: state where
  \<comment> \<open>The feedback form, filled in and opened for a name every object inherits.\<close>
  "asked2 = (openFeedbackModal ''constructor'' answered1)\<lparr>modal_comments := ''wrong''\<rparr>"

section \<open>Lemmas on the operations\<close>

lemmas chat_defs = sendMessage_def sendMessage_resume_def issue_def settle_def report_def
  log_error_def loadConversations_def loadConversations_resume_def createNewChat_def
  createNewChat_resume_def loadConversation_def loadConversation_resume_def
  deleteConversation_def deleteConversation_resume_def useExample_def exportMessagePDF_def
  exportMessagePDF_resume_def exportMessageCSV_def exportMessageCSV_resume_def
  quickFeedback_def quickFeedback_resume_def openFeedbackModal_def closeFeedbackModal_def
  setModalRating_def submitFeedback_def submitFeedback_resume_def appendUserMessage_def
  mark_thumbs_def read_entry_def nothing_filled_def
  appendAssistantMessage_def appendErrorMessage_def appendTypingIndicator_def
  removeTypingIndicator_def append_child_def

lemmas example_defs = chat1_def typed1_def sending1_def reply0_def reply1_def failure0_def
  answered1_def answered2_def page0_def clock0_def meta4_def item0_def gen0_def
  not_found_def switched1_def blank1_def deleted1_def asked1_def failed1_def reply_null_def
  orphaned1_def asked2_def

lemmas eval_defs = example_defs chat_defs Let_def trim_def isWhiteSpace_def time_text_def
  or_else_def or_number_def evidence_block_def render_evidence_def empty_metadata_def

lemma thrown_appendAssistantMessage:
  "thrown (appendAssistantMessage gen c text md ts s) =
     (if md = Null then Some (type_error c ''null'' ''evidence'') else None)"
  by (cases md) (simp_all add: appendAssistantMessage_def append_child_def Let_def)

lemma appendAssistantMessage_requests [simp]:
  "requests (appendAssistantMessage gen c text md ts s) = requests s"
  "pending (appendAssistantMessage gen c text md ts s) = pending s"
  "isWaitingForResponse (appendAssistantMessage gen c text md ts s) = isWaitingForResponse s"
  "currentConversationId (appendAssistantMessage gen c text md ts s) = currentConversationId s"
  by (cases md; simp add: appendAssistantMessage_def append_child_def Let_def)+

lemma render_messages_pending [simp]: "pending (render_messages gen c ms s) = pending s"
  by (induction ms arbitrary: s)
    (simp_all add: appendUserMessage_def append_child_def Let_def split: option.splits)

lemma render_messages_waiting [simp]:
  "isWaitingForResponse (render_messages gen c ms s) = isWaitingForResponse s"
  by (induction ms arbitrary: s)
    (simp_all add: appendUserMessage_def append_child_def Let_def split: option.splits)

lemma resume_rejected:
  "sendMessage_resume gen c (Rejected m) s =
     s\<lparr>messages_container := remove1 TypingMessage (messages_container s) @
          [ErrorMessage (time_now c) (escapeHtml (''Connection error: '' @ m))],
       isWaitingForResponse := False, send_btn_disabled := False\<rparr>"
  by (simp add: sendMessage_resume_def appendErrorMessage_def removeTypingIndicator_def
      append_child_def)

lemma resume_not_ok:
  "sendMessage_resume gen c (Responded False d) s =
     s\<lparr>messages_container := remove1 TypingMessage (messages_container s) @
          [ErrorMessage (time_now c) (escapeHtml (or_else (reply_error d) ''Unknown error''))],
       isWaitingForResponse := False, send_btn_disabled := False\<rparr>"
  by (simp add: sendMessage_resume_def appendErrorMessage_def removeTypingIndicator_def
      append_child_def)

lemma resume_reply:
  "reply_metadata d \<noteq> Null \<Longrightarrow>
   sendMessage_resume gen c (Responded True d) s =
     (loadConversations
        ((appendAssistantMessage gen c (assistant_message d) (reply_metadata d) None
            (removeTypingIndicator s))
         \<lparr>conversation_title := take 50 (assistant_message d)\<rparr>))
     \<lparr>isWaitingForResponse := False, send_btn_disabled := False\<rparr>"
  by (simp add: sendMessage_resume_def Let_def thrown_appendAssistantMessage)

lemma resume_null:
  "reply_metadata d = Null \<Longrightarrow>
   sendMessage_resume gen c (Responded True d) s =
     (appendErrorMessage c (''Connection error: '' @ type_error c ''null'' ''evidence'')
        (removeTypingIndicator
           ((appendAssistantMessage gen c (assistant_message d) Null None
               (removeTypingIndicator s))
            \<lparr>thrown := None\<rparr>)))
     \<lparr>isWaitingForResponse := False, send_btn_disabled := False\<rparr>"
  by (simp add: sendMessage_resume_def Let_def thrown_appendAssistantMessage)

lemma resume_cases:
  "(\<And>m. r = Rejected m \<Longrightarrow> P) \<Longrightarrow> (\<And>d. r = Responded False d \<Longrightarrow> P) \<Longrightarrow>
   (\<And>d. r = Responded True d \<Longrightarrow> reply_metadata d \<noteq> Null \<Longrightarrow> P) \<Longrightarrow>
   (\<And>d. r = Responded True d \<Longrightarrow> reply_metadata d = Null \<Longrightarrow> P) \<Longrightarrow> P"
  by (cases r) auto

lemmas resume_eqs = resume_rejected resume_not_ok resume_reply resume_null

lemmas plain_defs = appendErrorMessage_def removeTypingIndicator_def append_child_def
  loadConversations_def issue_def appendUserMessage_def appendTypingIndicator_def

lemma requests_sendMessage_resume:
  "requests (sendMessage_resume gen c (Rejected m) s) = requests s"
  "requests (sendMessage_resume gen c (Responded False d) s) = requests s"
  "requests (sendMessage_resume gen c (Responded True d) s) =
     requests s @ (if reply_metadata d = Null then [] else [GetConversations])"
  by (simp_all add: sendMessage_resume_def Let_def plain_defs thrown_appendAssistantMessage)

lemma filter_remove1_len:
  "x \<in> set xs \<Longrightarrow>
   length (filter (\<lambda>k. k = x) (remove1 x xs)) = length (filter (\<lambda>k. k = x) xs) - 1"
  by (induction xs) auto

lemma filter_remove1_other:
  "y \<noteq> x \<Longrightarrow> filter (\<lambda>k. k = x) (remove1 y xs) = filter (\<lambda>k. k = x) xs"
  by (induction xs) auto

lemma in_set_filter_pos: "x \<in> set xs \<Longrightarrow> 0 < length (filter (\<lambda>k. k = x) xs)"
  by (induction xs) auto

lemma sends_in_flight_settle_send:
  "SendMessageK \<in> set (pending s) \<Longrightarrow>
   sends_in_flight (settle SendMessageK s) = sends_in_flight s - 1"
  by (simp add: sends_in_flight_def settle_def filter_remove1_len)

lemma sends_in_flight_resume [simp]:
  "sends_in_flight (sendMessage_resume gen c r s) = sends_in_flight s"
  by (rule resume_cases[of r]) (simp_all add: resume_eqs sends_in_flight_def plain_defs)

lemma waiting_resume [simp]: "\<not> isWaitingForResponse (sendMessage_resume gen c r s)"
  by (simp add: sendMessage_resume_def Let_def)

lemma step_single_flight: "step gen s s' \<Longrightarrow> single_flight s \<Longrightarrow> single_flight s'"
proof (induction rule: step.induct)
  case (resume_sendMessage s c r5)
  then show ?case
    using in_set_filter_pos[of SendMessageK "pending s"]
    by (auto simp: single_flight_def sends_in_flight_settle_send split: if_splits)
qed (auto simp: single_flight_def sends_in_flight_def chat_defs Let_def filter_remove1_other
      split: fetched.splits option.splits if_splits lookup.splits)

lemma steps_single_flight: "(step gen)\<^sup>*\<^sup>* s s' \<Longrightarrow> single_flight s \<Longrightarrow> single_flight s'"
  by (induction rule: rtranclp_induct) (auto intro: step_single_flight)

lemma reachable_single_flight: "reachable gen s \<Longrightarrow> single_flight s"
proof -
  assume "reachable gen s"
  then obtain s0 where s0: "page_loaded s0" "(step gen)\<^sup>*\<^sup>* s0 s"
    by (auto simp: reachable_def)
  from s0(1) have "single_flight s0"
    by (simp add: page_loaded_def single_flight_def sends_in_flight_def)
  with s0(2) show ?thesis by (rule steps_single_flight)
qed

lemma reachable_step: "reachable gen s \<Longrightarrow> step gen s s' \<Longrightarrow> reachable gen s'"
  by (auto simp: reachable_def intro: rtranclp.rtrancl_into_rtrancl)

lemma reachable_page0: "reachable gen page0"
  by (auto simp: reachable_def page_loaded_def page0_def intro!: exI[of _ page0])

lemma reachable_chat1: "reachable gen chat1"
proof -
  have "reachable gen (createNewChat page0)"
    by (rule reachable_step[OF reachable_page0 step.call_createNewChat])
  moreover have "CreateNewChatK \<in> set (pending (createNewChat page0))"
    by (simp add: createNewChat_def issue_def)
  ultimately show ?thesis
    unfolding chat1_def by (rule reachable_step[OF _ step.resume_createNewChat])
qed

lemma reachable_sending1: "reachable gen sending1"
proof -
  have "reachable gen typed1"
    unfolding typed1_def by (rule reachable_step[OF reachable_chat1 step.type_input])
  then show ?thesis
    unfolding sending1_def by (rule reachable_step[OF _ step.call_sendMessage])
qed

section \<open>Single flight\<close>

text \<open>
  C2. A call of \<open>sendMessage\<close> with an input that is not empty after trimming, while
  no send waits, issues exactly one chat call and sets the pending flag. While the flag
  is set, a call of \<open>sendMessage\<close> returns the page as it was. In every state the page
  reaches, at most one send waits for its call, and one does exactly when the flag is
  set. When the call settles, with a reply, an error response or a rejection, the flag
  is cleared and no send waits. The rest of the function, which runs then, issues no
  chat call: it issues nothing after a failure, and the fetch of the conversation list
  after a reply it could render. So from the call of \<open>sendMessage\<close> to its end the
  function adds one chat call to the calls issued, and besides it at most fetches of
  the conversation list.
\<close>

theorem sendMessage_single_flight:
  "(trim (message_input s1) \<noteq> [] \<and> \<not> isWaitingForResponse s1 \<longrightarrow>
      requests (sendMessage c s1) =
        requests s1 @ [PostMessage (currentConversationId s1) (trim (message_input s1))] \<and>
      pending (sendMessage c s1) = pending s1 @ [SendMessageK] \<and>
      isWaitingForResponse (sendMessage c s1)) \<and>
   (isWaitingForResponse s2 \<longrightarrow> sendMessage c s2 = s2) \<and>
   (reachable gen s3 \<longrightarrow>
      sends_in_flight s3 \<le> 1 \<and> (isWaitingForResponse s3 \<longleftrightarrow> sends_in_flight s3 = 1)) \<and>
   (SendMessageK \<in> set (pending s4) \<longrightarrow>
      \<not> isWaitingForResponse (sendMessage_resume gen c' r (settle SendMessageK s4)) \<and>
      sends_in_flight (sendMessage_resume gen c' r (settle SendMessageK s4)) =
        sends_in_flight s4 - 1) \<and>
   requests (sendMessage_resume gen c' (Rejected m) s5) = requests s5 \<and>
   requests (sendMessage_resume gen c' (Responded False d) s5) = requests s5 \<and>
   requests (sendMessage_resume gen c' (Responded True d) s5) =
     requests s5 @ (if reply_metadata d = Null then [] else [GetConversations]) \<and>
   (trim (message_input s6) \<noteq> [] \<and> \<not> isWaitingForResponse s6 \<longrightarrow>
      (\<exists>rest.
         requests (sendMessage_resume gen c' r (settle SendMessageK (sendMessage c s6))) =
           requests s6 @ [PostMessage (currentConversationId s6) (trim (message_input s6))] @
             rest \<and>
         set rest \<subseteq> {GetConversations}))"
proof (intro conjI impI)
  assume "reachable gen s3"
  then have "single_flight s3" by (rule reachable_single_flight)
  then show "sends_in_flight s3 \<le> 1" and "isWaitingForResponse s3 \<longleftrightarrow> sends_in_flight s3 = 1"
    by (auto simp: single_flight_def split: if_splits)
next
  assume "SendMessageK \<in> set (pending s4)"
  then show "sends_in_flight (sendMessage_resume gen c' r (settle SendMessageK s4)) =
      sends_in_flight s4 - 1"
    by (simp add: sends_in_flight_settle_send)
next
  show "requests (sendMessage_resume gen c' (Rejected m) s5) = requests s5"
    and "requests (sendMessage_resume gen c' (Responded False d) s5) = requests s5"
    and "requests (sendMessage_resume gen c' (Responded True d) s5) =
      requests s5 @ (if reply_metadata d = Null then [] else [GetConversations])"
    by (simp_all add: requests_sendMessage_resume)
next
  assume a: "trim (message_input s6) \<noteq> [] \<and> \<not> isWaitingForResponse s6"
  let ?s = "settle SendMessageK (sendMessage c s6)"
  have sent: "requests ?s =
      requests s6 @ [PostMessage (currentConversationId s6) (trim (message_input s6))]"
    using a by (simp add: sendMessage_def Let_def issue_def settle_def appendUserMessage_def
        appendTypingIndicator_def append_child_def)
  have "\<exists>rest. requests (sendMessage_resume gen c' r ?s) = requests ?s @ rest \<and>
      set rest \<subseteq> {GetConversations}"
  proof (cases r)
    case (Rejected m')
    then show ?thesis by (simp add: requests_sendMessage_resume)
  next
    case (Responded ok d')
    then show ?thesis by (cases ok) (simp_all add: requests_sendMessage_resume)
  qed
  then show "\<exists>rest.
         requests (sendMessage_resume gen c' r (settle SendMessageK (sendMessage c s6))) =
           requests s6 @ [PostMessage (currentConversationId s6) (trim (message_input s6))] @
             rest \<and>
         set rest \<subseteq> {GetConversations}"
    by (simp add: sent)
qed (auto simp: sendMessage_def Let_def issue_def appendUserMessage_def
      appendTypingIndicator_def append_child_def)

theorem sendMessage_single_flight_witness:
  "trim (message_input typed1) \<noteq> [] \<and> \<not> isWaitingForResponse typed1 \<and>
   requests (sendMessage clock0 typed1) =
     [PostConversations ''New Chat'', GetConversations,
      PostMessage (Some ''conv-1'') ''Describe Emotet''] \<and>
   pending (sendMessage clock0 typed1) = [LoadConversationsK, SendMessageK] \<and>
   isWaitingForResponse sending1 \<and>
   sendMessage clock0 (sending1\<lparr>message_input := ''again''\<rparr>) =
     sending1\<lparr>message_input := ''again''\<rparr> \<and>
   reachable gen0 sending1 \<and> sends_in_flight sending1 = 1 \<and>
   SendMessageK \<in> set (pending sending1) \<and>
   \<not> isWaitingForResponse
       (sendMessage_resume gen0 clock0 (Responded False failure0) (settle SendMessageK sending1)) \<and>
   sends_in_flight
       (sendMessage_resume gen0 clock0 (Responded False failure0) (settle SendMessageK sending1)) = 0 \<and>
   requests failed1 =
     [PostConversations ''New Chat'', GetConversations,
      PostMessage (Some ''conv-1'') ''Describe Emotet''] \<and>
   requests orphaned1 =
     [PostConversations ''New Chat'', GetConversations,
      PostMessage (Some ''conv-1'') ''Describe Emotet''] \<and>
   requests answered1 =
     [PostConversations ''New Chat'', GetConversations,
      PostMessage (Some ''conv-1'') ''Describe Emotet'', GetConversations]"
proof -
  have a: "trim (message_input typed1) \<noteq> [] \<and> \<not> isWaitingForResponse typed1"
    by (simp add: eval_defs)
  have b: "isWaitingForResponse (sending1\<lparr>message_input := ''again''\<rparr>)"
    by (simp add: eval_defs)
  have c: "SendMessageK \<in> set (pending sending1)"
    by (simp add: eval_defs)
  have d: "requests typed1 = [PostConversations ''New Chat'', GetConversations] \<and>
      currentConversationId typed1 = Some ''conv-1'' \<and>
      trim (message_input typed1) = ''Describe Emotet'' \<and> pending typed1 = [LoadConversationsK]"
    by (simp add: eval_defs)
  have e: "requests (settle SendMessageK sending1) =
      [PostConversations ''New Chat'', GetConversations,
       PostMessage (Some ''conv-1'') ''Describe Emotet'']"
    by (simp add: eval_defs)
  have f: "reply_metadata reply0 \<noteq> Null \<and> reply_metadata reply_null = Null"
    by (simp add: reply0_def reply_null_def)
  note t = sendMessage_single_flight[where ?s1.0 = typed1 and c = clock0
      and ?s2.0 = "sending1\<lparr>message_input := ''again''\<rparr>" and gen = gen0
      and ?s3.0 = sending1 and ?s4.0 = sending1 and c' = clock0
      and r = "Responded False failure0" and ?s5.0 = "settle SendMessageK sending1"
      and ?s6.0 = typed1]
  have g: "requests failed1 =
     [PostConversations ''New Chat'', GetConversations,
      PostMessage (Some ''conv-1'') ''Describe Emotet'']"
    using t[where d = failure0] e by (simp add: failed1_def)
  have h: "requests orphaned1 =
     [PostConversations ''New Chat'', GetConversations,
      PostMessage (Some ''conv-1'') ''Describe Emotet'']"
    using t[where d = reply_null] e f by (simp add: orphaned1_def)
  have i: "requests answered1 =
     [PostConversations ''New Chat'', GetConversations,
      PostMessage (Some ''conv-1'') ''Describe Emotet'', GetConversations]"
    using t[where d = reply0] e f by (simp add: answered1_def)
  show ?thesis
    using t[where d = failure0] a b c d g h i reachable_sending1[of gen0]
    by (auto simp: sending1_def[symmetric])
qed

section \<open>Evidence shown with an assistant message\<close>

lemma length_render_evidence: "length (render_evidence es) = min 3 (length es)"
  by (simp add: render_evidence_def)

lemma nth_render_evidence:
  "i < min 3 (length es) \<Longrightarrow>
   render_evidence es ! i =
     \<lparr>ev_number = i + 1,
      ev_actor = escapeHtml (or_else (actor (es ! i)) ''Unknown''),
      ev_source = escapeHtml (source (es ! i)),
      ev_text = escapeHtml (evidence_text (es ! i))\<rparr>"
  by (simp add: render_evidence_def nth_enumerate_eq)

text \<open>
  C10. An assistant message whose metadata holds \<open>N > 0\<close> evidence items is appended
  with the badge \<open>N\<close> and with the first \<open>min 3 N\<close> items rendered, in order and
  numbered from one; for \<open>N > 3\<close> the badge exceeds the number of items rendered.
\<close>

theorem evidence_badge_counts_all_items:
  "evidence m = Some es \<and> 0 < length es \<longrightarrow>
     (\<exists>shown.
        messages_container (appendAssistantMessage gen c text (Obj m) ts s) =
          messages_container s @
            [AssistantMessage (time_text c ts) (escapeHtml text) (Some (length es, shown))
               (gen (ids_generated s)) None] \<and>
        length shown = min 3 (length es) \<and>
        (\<forall>i < length shown.
           shown ! i =
             \<lparr>ev_number = i + 1,
              ev_actor = escapeHtml (or_else (actor (es ! i)) ''Unknown''),
              ev_source = escapeHtml (source (es ! i)),
              ev_text = escapeHtml (evidence_text (es ! i))\<rparr>) \<and>
        (3 < length es \<longrightarrow> length shown < length es))"
proof (intro impI, elim conjE)
  assume ev: "evidence m = Some es" and pos: "0 < length es"
  let ?shown = "render_evidence es"
  have "messages_container (appendAssistantMessage gen c text (Obj m) ts s) =
          messages_container s @
            [AssistantMessage (time_text c ts) (escapeHtml text) (Some (length es, ?shown))
               (gen (ids_generated s)) None]"
    using ev pos by (simp add: appendAssistantMessage_def Let_def append_child_def evidence_block_def)
  moreover have "length ?shown = min 3 (length es)" by (rule length_render_evidence)
  moreover have "\<forall>i < length ?shown.
           ?shown ! i =
             \<lparr>ev_number = i + 1,
              ev_actor = escapeHtml (or_else (actor (es ! i)) ''Unknown''),
              ev_source = escapeHtml (source (es ! i)),
              ev_text = escapeHtml (evidence_text (es ! i))\<rparr>"
    by (simp add: length_render_evidence nth_render_evidence)
  moreover have "3 < length es \<longrightarrow> length ?shown < length es"
    by (simp add: length_render_evidence)
  ultimately show "\<exists>shown.
        messages_container (appendAssistantMessage gen c text (Obj m) ts s) =
          messages_container s @
            [AssistantMessage (time_text c ts) (escapeHtml text) (Some (length es, shown))
               (gen (ids_generated s)) None] \<and>
        length shown = min 3 (length es) \<and>
        (\<forall>i < length shown.
           shown ! i =
             \<lparr>ev_number = i + 1,
              ev_actor = escapeHtml (or_else (actor (es ! i)) ''Unknown''),
              ev_source = escapeHtml (source (es ! i)),
              ev_text = escapeHtml (evidence_text (es ! i))\<rparr>) \<and>
        (3 < length es \<longrightarrow> length shown < length es)"
    by blast
qed

theorem evidence_badge_counts_all_items_witness:
  "evidence meta4 = Some [item0 0, item0 1, item0 2, item0 3] \<and>
   messages_container (appendAssistantMessage gen0 clock0 ''Hello'' (Obj meta4) None page0) =
     [AssistantMessage ''10:15:00'' ''Hello''
        (Some (4, [\<lparr>ev_number = 1, ev_actor = ''Unknown'', ev_source = ''attack.mitre.org'',
                     ev_text = ''Spearphishing''\<rparr>,
                   \<lparr>ev_number = 2, ev_actor = ''APT28'', ev_source = ''attack.mitre.org'',
                     ev_text = ''Spearphishing''\<rparr>,
                   \<lparr>ev_number = 3, ev_actor = ''APT28'', ev_source = ''attack.mitre.org'',
                     ev_text = ''Credential harvesting''\<rparr>]))
        ''msg-1704104100000-a'' None]"
proof -
  let ?es = "[item0 0, item0 1, item0 2, item0 3]"
  have ev: "evidence meta4 = Some ?es"
    by (simp add: meta4_def)
  from evidence_badge_counts_all_items[of meta4 ?es gen0 clock0 "''Hello''" None page0] ev
  obtain shown where
    sh: "messages_container (appendAssistantMessage gen0 clock0 ''Hello'' (Obj meta4) None page0) =
          messages_container page0 @
            [AssistantMessage (time_text clock0 None) (escapeHtml ''Hello'') (Some (4, shown))
               (gen0 (ids_generated page0)) None]"
      and len: "length shown = 3"
      and nth: "\<forall>i < length shown.
           shown ! i =
             \<lparr>ev_number = i + 1,
              ev_actor = escapeHtml (or_else (actor (?es ! i)) ''Unknown''),
              ev_source = escapeHtml (source (?es ! i)),
              ev_text = escapeHtml (evidence_text (?es ! i))\<rparr>"
    by auto
  from len obtain a b d where abd: "shown = [a, b, d]"
    by (auto simp: length_Suc_conv numeral_3_eq_3)
  have "a = \<lparr>ev_number = 1, ev_actor = ''Unknown'', ev_source = ''attack.mitre.org'',
                     ev_text = ''Spearphishing''\<rparr>"
    using nth[rule_format, of 0] abd by (simp add: item0_def or_else_def)
  moreover have "b = \<lparr>ev_number = 2, ev_actor = ''APT28'', ev_source = ''attack.mitre.org'',
                     ev_text = ''Spearphishing''\<rparr>"
    using nth[rule_format, of 1] abd by (simp add: item0_def or_else_def)
  moreover have "d = \<lparr>ev_number = 3, ev_actor = ''APT28'', ev_source = ''attack.mitre.org'',
                     ev_text = ''Credential harvesting''\<rparr>"
    using nth[rule_format, of 2] abd by (simp add: item0_def or_else_def)
  ultimately show ?thesis
    using sh ev abd by (simp add: page0_def clock0_def gen0_def time_text_def)
qed

section \<open>Escaping on the query page\<close>

lemma raw_special_append: "raw_special (xs @ ys) = (raw_special xs \<or> raw_special ys)"
  by (auto simp: raw_special_def)

lemma escapeHtml_app_Cons:
  "escapeHtml_app (m # s) =
     (if m = CHR ''&'' then ''&amp;''
      else if m = CHR ''<'' then ''&lt;''
      else if m = CHR ''>'' then ''&gt;''
      else if m = CHR 0x22 then ''&quot;''
      else if m = CHR 0x27 then ''&#039;''
      else [m]) @ escapeHtml_app s"
  by (simp add: escapeHtml_app_def)

lemma escapeHtml_app_no_raw: "\<not> raw_special (escapeHtml_app s)"
proof (induction s)
  case Nil
  show ?case by (simp add: escapeHtml_app_def raw_special_def)
next
  case (Cons m s)
  have "\<not> raw_special
     (if m = CHR ''&'' then ''&amp;''
      else if m = CHR ''<'' then ''&lt;''
      else if m = CHR ''>'' then ''&gt;''
      else if m = CHR 0x22 then ''&quot;''
      else if m = CHR 0x27 then ''&#039;''
      else [m])"
    by (simp add: raw_special_def)
  with Cons show ?case
    by (simp only: escapeHtml_app_Cons raw_special_append simp_thms)
qed

lemma trace_id_markup:
  "r_trace_id result = Some t \<Longrightarrow> t \<noteq> [] \<Longrightarrow>
   card_trace (result_markup p result) = Some (take 8 t)"
  by (simp add: result_markup_def)

lemma model_markup: "card_model (result_markup p result) = escapeHtml_app (r_model result)"
  by (simp add: result_markup_def)

text \<open>
  C1. The query page escapes the query, the answer, the evidence fields and the model,
  and puts the first eight characters of the trace identifier into the markup as they
  are: for the trace identifier \<open>''<script>alert(1)</script>''\<close> the card holds the tag
  \<open>''<script>''\<close>, next to a model name that was escaped.
\<close>

theorem displayResults_trace_id_raw:
  "results (displayResults printing0 result0 app0) =
     Some (ResultCard
       \<lparr>card_query = ''What are common tactics used by APT28?'',
        card_confidence = ''84.5'',
        card_answer = ''Spearphishing and credential harvesting.'',
        card_evidence =
          Some (2, [\<lparr>row_number = 1, row_actor = ''APT28'', row_source = ''attack.mitre.org'',
                      row_score = ''0.500'', row_text = ''Spearphishing''\<rparr>,
                    \<lparr>row_number = 2, row_actor = ''APT28'', row_source = ''attack.mitre.org'',
                      row_score = ''0.500'', row_text = ''Credential harvesting''\<rparr>]),
        card_model = ''llama3 &lt;8B&gt;'',
        card_sources = Some 2,
        card_timestamp = ''10:15:00'',
        card_trace = Some ''<script>''\<rparr>) \<and>
   raw_special ''<script>''"
  by (simp add: displayResults_def result_markup_def evidence_rows_def printing0_def result0_def
      app0_def item0_def escapeHtml_app_def or_else_def or_number_def raw_special_def)

section \<open>The title after a reply\<close>

lemma title_after_reply:
  "reply_metadata data \<noteq> Null \<Longrightarrow>
   conversation_title (sendMessage_resume gen c (Responded True data) s) =
     take 50 (assistant_message data)"
  by (simp add: resume_reply loadConversations_def issue_def)

text \<open>
  C4. Every successful reply sets the title heading to the first fifty characters of
  the reply: after a first reply gave the conversation its title, a second reply
  replaces it.
\<close>

theorem title_replaced_by_second_reply:
  "conversation_title answered1 = ''Emotet is a banking trojan.'' \<and>
   conversation_title answered2 = ''It spreads through malicious attachments.''"
  by (simp add: eval_defs)

section \<open>Loading a conversation\<close>

lemma render_messages_active [simp]:
  "currentConversationId (render_messages gen c ms s) = currentConversationId s"
  by (induction ms arbitrary: s)
    (simp_all add: appendUserMessage_def append_child_def Let_def split: option.splits)

lemma loadConversation_rejected:
  "loadConversation_resume gen c convId (Rejected m) s =
     s\<lparr>alerts := alerts s @ [''Error loading conversation''],
       console_errors := console_errors s @ [''Error loading conversation:'']\<rparr>"
  by (simp add: loadConversation_resume_def report_def)

lemma loadConversation_responded:
  "currentConversationId (loadConversation_resume gen c convId (Responded ok conv) s) =
     Some convId"
  by (simp add: loadConversation_resume_def Let_def report_def loadConversations_def issue_def
      split: option.splits)

lemma loadConversation_no_messages:
  "messages conv = None \<Longrightarrow>
   messages_container (loadConversation_resume gen c convId (Responded ok conv) s) = [] \<and>
   alerts (loadConversation_resume gen c convId (Responded ok conv) s) =
     alerts s @ [''Error loading conversation'']"
  by (simp add: loadConversation_resume_def Let_def report_def)

text \<open>
  C5. An error response to the fetch of a conversation is reported, but only after the
  active identifier was set and the transcript was emptied: from a page that shows
  conversation \<open>''conv-1''\<close>, loading \<open>''conv-2''\<close> and getting a response that is not ok and
  has no messages leaves \<open>''conv-2''\<close> active and the transcript empty.
\<close>

theorem loadConversation_error_response_switches:
  "currentConversationId answered1 = Some ''conv-1'' \<and>
   messages_container answered1 =
     [UserMessage ''10:15:00'' ''Describe Emotet'',
      AssistantMessage ''10:15:00'' ''Emotet is a banking trojan.'' (evidence_block meta4)
        ''msg-1704104100000-a'' None] \<and>
   conversation_title answered1 = ''Emotet is a banking trojan.'' \<and>
   currentConversationId switched1 = Some ''conv-2'' \<and>
   messages_container switched1 = [] \<and>
   conversation_title switched1 = [] \<and>
   alerts switched1 = [''Error loading conversation'']"
  by (simp add: eval_defs)

section \<open>An empty input\<close>

text \<open>
  C7, as the claim states it, fails: \<open>sendMessage\<close> on an input of blanks returns the
  page as it was, with no alert and nothing in the transcript.
\<close>

theorem blank_send_shows_nothing:
  "trim (message_input blank1) = [] \<and> sendMessage clock0 blank1 = blank1 \<and>
   alerts blank1 = [] \<and> messages_container blank1 = []"
  by (simp add: sendMessage_def eval_defs)

text \<open>
  C7, amended. For an input that is empty after trimming, \<open>sendMessage\<close> returns the
  state it was given: no network call, no change to the transcript or to any variable,
  and no message to the user. On the query page, \<open>submitQuery\<close> with such a query posts
  nothing and writes the validation message into the results element.
\<close>

theorem blank_input_is_ignored:
  "(trim (message_input s) = [] \<longrightarrow> sendMessage c s = s) \<and>
   (trim (query_input a) = [] \<longrightarrow>
      submitQuery a =
        a\<lparr>results := Some (ErrorBox ''Please enter a threat intelligence query'')\<rparr>)"
  by (simp add: sendMessage_def submitQuery_def showError_def escapeHtml_app_def)

theorem blank_input_is_ignored_witness:
  "trim (message_input blank1) = [] \<and> sendMessage clock0 blank1 = blank1 \<and>
   trim (query_input app_blank) = [] \<and>
   queries_posted (submitQuery app_blank) = [] \<and>
   results (submitQuery app_blank) =
     Some (ErrorBox ''Please enter a threat intelligence query'')"
proof -
  have a: "trim (message_input blank1) = []"
    by (simp add: blank1_def trim_def isWhiteSpace_def)
  have b: "trim (query_input app_blank) = []"
    by (simp add: app_blank_def trim_def isWhiteSpace_def)
  have c: "queries_posted app_blank = []"
    by (simp add: app_blank_def app0_def)
  show ?thesis
    using blank_input_is_ignored[of blank1 clock0 app_blank] a b c by simp
qed

section \<open>Deleting a conversation\<close>

text \<open>
  C6, as the claim states it, fails: the active conversation \<open>''conv-1''\<close> is deleted
  (the user confirms, the call is answered), the call that creates its successor is
  rejected, and \<open>''conv-1''\<close> is still the active identifier when both functions have
  ended; only an alert tells the user.
\<close>

theorem deleted_conversation_stays_active:
  "currentConversationId answered1 = Some ''conv-1'' \<and>
   requests deleted1 = requests answered1 @
     [DeleteConversation ''conv-1'', PostConversations ''New Chat''] \<and>
   pending deleted1 = pending answered1 \<and>
   currentConversationId deleted1 = Some ''conv-1'' \<and>
   alerts deleted1 = [''Error creating new chat'']"
  by (simp add: eval_defs)

text \<open>
  C6, amended. When the user declines, \<open>deleteConversation\<close> does nothing. When the
  deletion call is answered and the identifier was the active one, \<open>createNewChat\<close> is
  called: it issues the creation call and leaves the active identifier and the
  transcript as they were until that call settles. Answered with a body that holds a
  conversation identifier, the creation call makes that conversation the active one,
  empties the transcript and fetches the list of conversations; rejected, it shows an
  alert and leaves the active identifier and the transcript as they were. When the
  identifier was not the active one, only the list of conversations is fetched again.
  When the deletion call is rejected, only the error is reported.
\<close>

theorem deleteConversation_outcomes:
  "deleteConversation False convId s1 = s1 \<and>
   (currentConversationId s2 = Some convId \<longrightarrow>
      deleteConversation_resume convId (Responded ok u) s2 = createNewChat s2 \<and>
      requests (createNewChat s2) = requests s2 @ [PostConversations ''New Chat''] \<and>
      pending (createNewChat s2) = pending s2 @ [CreateNewChatK] \<and>
      currentConversationId (createNewChat s2) = Some convId \<and>
      messages_container (createNewChat s2) = messages_container s2) \<and>
   (currentConversationId (createNewChat_resume (Responded ok' (Some new)) s3) = Some new \<and>
    messages_container (createNewChat_resume (Responded ok' (Some new)) s3) = [] \<and>
    requests (createNewChat_resume (Responded ok' (Some new)) s3) =
      requests s3 @ [GetConversations]) \<and>
   createNewChat_resume (Rejected m) s4 =
     s4\<lparr>alerts := alerts s4 @ [''Error creating new chat''],
        console_errors := console_errors s4 @ [''Error creating conversation:'']\<rparr> \<and>
   (currentConversationId s5 \<noteq> Some convId \<longrightarrow>
      deleteConversation_resume convId (Responded ok u) s5 =
        s5\<lparr>requests := requests s5 @ [GetConversations],
           pending := pending s5 @ [LoadConversationsK]\<rparr>) \<and>
   deleteConversation_resume convId (Rejected m) s6 =
     s6\<lparr>alerts := alerts s6 @ [''Error deleting conversation''],
        console_errors := console_errors s6 @ [''Error deleting conversation:'']\<rparr>"
  by (auto simp: deleteConversation_def deleteConversation_resume_def createNewChat_def
      createNewChat_resume_def loadConversations_def issue_def report_def)

theorem deleteConversation_outcomes_witness:
  "currentConversationId answered1 = Some ''conv-1'' \<and>
   deleteConversation_resume ''conv-1'' (Responded True ()) answered1 = createNewChat answered1 \<and>
   requests (createNewChat answered1) = requests answered1 @ [PostConversations ''New Chat''] \<and>
   currentConversationId (createNewChat answered1) = Some ''conv-1'' \<and>
   currentConversationId (createNewChat_resume (Responded True (Some ''conv-2'')) answered1) =
     Some ''conv-2'' \<and>
   messages_container (createNewChat_resume (Responded True (Some ''conv-2'')) answered1) = [] \<and>
   currentConversationId answered1 \<noteq> Some ''conv-0'' \<and>
   deleteConversation_resume ''conv-0'' (Responded True ()) answered1 =
     answered1\<lparr>requests := requests answered1 @ [GetConversations],
        pending := pending answered1 @ [LoadConversationsK]\<rparr>"
proof -
  have a: "currentConversationId answered1 = Some ''conv-1''"
    by (simp add: eval_defs)
  show ?thesis
    using deleteConversation_outcomes[of "''conv-1''" answered1 answered1 True "()" True
        "''conv-2''" answered1 "''x''" answered1 answered1 answered1]
      deleteConversation_outcomes[of "''conv-0''" answered1 answered1 True "()" True
        "''conv-2''" answered1 "''x''" answered1 answered1 answered1]
      a
    by simp
qed

section \<open>Export and feedback for an unknown message\<close>

text \<open>
  C8, as the claim states it, fails: \<open>quickFeedback\<close> for an identifier with no
  registry entry returns without an alert.
\<close>

theorem quickFeedback_unknown_is_silent:
  "registry answered1 ''msg-unknown'' = None \<and>
   alerts (quickFeedback clock0 ''msg-unknown'' ''positive'' answered1) = [] \<and>
   uncaught (quickFeedback clock0 ''msg-unknown'' ''positive'' answered1) = [] \<and>
   requests (quickFeedback clock0 ''msg-unknown'' ''positive'' answered1) = requests answered1"
  by (simp add: registry_def inherited_def eval_defs)

text \<open>
  C8, amended. For a message identifier with no registry entry none of the four
  operations issues a network call. \<open>exportMessagePDF\<close> and \<open>exportMessageCSV\<close> show an
  alert: the browser's message of the TypeError when the registry object does not exist
  or the identifier is a name every object inherits, and \<open>''Message data not found''\<close>
  otherwise. \<open>quickFeedback\<close> shows no alert. \<open>submitFeedback\<close> shows the alert
  \<open>''Message data not found''\<close> when the identifier is not empty, is the one the feedback
  form was opened for and is not a name every object inherits, and the registry object
  exists.
\<close>

theorem unknown_message_stops_locally:
  "registry s i = None \<longrightarrow>
     (requests (exportMessagePDF c i s) = requests s \<and>
      pending (exportMessagePDF c i s) = pending s \<and>
      alerts (exportMessagePDF c i s) =
        alerts s @ [''Error exporting PDF: '' @
          (if messageMetadata s = None then type_error c ''undefined'' i
           else if inherited i then type_error c ''undefined'' ''evidence''
           else ''Message data not found'')]) \<and>
     (requests (exportMessageCSV c i s) = requests s \<and>
      pending (exportMessageCSV c i s) = pending s \<and>
      alerts (exportMessageCSV c i s) =
        alerts s @ [''Error exporting CSV: '' @
          (if messageMetadata s = None then type_error c ''undefined'' i
           else if inherited i then type_error c ''undefined'' ''evidence''
           else ''Message data not found'')]) \<and>
     (requests (quickFeedback c i kind s) = requests s \<and>
      pending (quickFeedback c i kind s) = pending s \<and>
      alerts (quickFeedback c i kind s) = alerts s) \<and>
     (currentFeedbackMessageId s = Some i \<longrightarrow>
        requests (submitFeedback c s) = requests s \<and>
        pending (submitFeedback c s) = pending s \<and>
        (i \<noteq> [] \<and> messageMetadata s \<noteq> None \<and> \<not> inherited i \<longrightarrow>
           alerts (submitFeedback c s) = alerts s @ [''Message data not found'']))"
proof (intro impI conjI)
  assume a: "registry s i = None"
  show "requests (exportMessagePDF c i s) = requests s"
    and "pending (exportMessagePDF c i s) = pending s"
    and "alerts (exportMessagePDF c i s) =
        alerts s @ [''Error exporting PDF: '' @
          (if messageMetadata s = None then type_error c ''undefined'' i
           else if inherited i then type_error c ''undefined'' ''evidence''
           else ''Message data not found'')]"
    using a by (auto simp: registry_def exportMessagePDF_def read_entry_def report_def
        split: option.splits)
  show "requests (exportMessageCSV c i s) = requests s"
    and "pending (exportMessageCSV c i s) = pending s"
    and "alerts (exportMessageCSV c i s) =
        alerts s @ [''Error exporting CSV: '' @
          (if messageMetadata s = None then type_error c ''undefined'' i
           else if inherited i then type_error c ''undefined'' ''evidence''
           else ''Message data not found'')]"
    using a by (auto simp: registry_def exportMessageCSV_def read_entry_def report_def
        split: option.splits)
  show "requests (quickFeedback c i kind s) = requests s"
    and "pending (quickFeedback c i kind s) = pending s"
    and "alerts (quickFeedback c i kind s) = alerts s"
    using a by (auto simp: registry_def quickFeedback_def read_entry_def log_error_def
        mark_thumbs_def split: option.splits)
next
  assume a: "registry s i = None" and b: "currentFeedbackMessageId s = Some i"
  show "requests (submitFeedback c s) = requests s"
    and "pending (submitFeedback c s) = pending s"
    using a b by (auto simp: registry_def submitFeedback_def read_entry_def report_def
        split: option.splits)
next
  assume a: "registry s i = None" and b: "currentFeedbackMessageId s = Some i"
    and d: "i \<noteq> [] \<and> messageMetadata s \<noteq> None \<and> \<not> inherited i"
  show "alerts (submitFeedback c s) = alerts s @ [''Message data not found'']"
    using a b d by (auto simp: registry_def submitFeedback_def read_entry_def
        split: option.splits)
qed

theorem unknown_message_stops_locally_witness:
  "registry asked1 ''msg-unknown'' = None \<and>
   currentFeedbackMessageId asked1 = Some ''msg-unknown'' \<and>
   messageMetadata asked1 \<noteq> None \<and> \<not> inherited ''msg-unknown'' \<and>
   requests (exportMessagePDF clock0 ''msg-unknown'' asked1) = requests asked1 \<and>
   alerts (exportMessagePDF clock0 ''msg-unknown'' asked1) =
     [''Error exporting PDF: Message data not found''] \<and>
   requests (exportMessageCSV clock0 ''msg-unknown'' asked1) = requests asked1 \<and>
   alerts (exportMessageCSV clock0 ''msg-unknown'' asked1) =
     [''Error exporting CSV: Message data not found''] \<and>
   requests (quickFeedback clock0 ''msg-unknown'' ''negative'' asked1) = requests asked1 \<and>
   alerts (quickFeedback clock0 ''msg-unknown'' ''negative'' asked1) = [] \<and>
   requests (submitFeedback clock0 asked1) = requests asked1 \<and>
   alerts (submitFeedback clock0 asked1) = [''Message data not found''] \<and>
   registry asked2 ''constructor'' = None \<and>
   currentFeedbackMessageId asked2 = Some ''constructor'' \<and>
   requests (exportMessagePDF clock0 ''constructor'' asked2) = requests asked2 \<and>
   alerts (exportMessagePDF clock0 ''constructor'' asked2) =
     [''Error exporting PDF: Cannot read properties of undefined (reading evidence)''] \<and>
   requests (quickFeedback clock0 ''constructor'' ''negative'' asked2) = requests asked2 \<and>
   alerts (quickFeedback clock0 ''constructor'' ''negative'' asked2) = [] \<and>
   requests (submitFeedback clock0 asked2) = requests asked2"
proof -
  have a: "registry asked1 ''msg-unknown'' = None \<and>
      currentFeedbackMessageId asked1 = Some ''msg-unknown'' \<and>
      messageMetadata asked1 \<noteq> None \<and> alerts asked1 = []"
    by (simp add: registry_def eval_defs)
  have b: "\<not> inherited ''msg-unknown'' \<and> inherited ''constructor''"
    by (simp add: inherited_def)
  have d: "registry asked2 ''constructor'' = None \<and>
      currentFeedbackMessageId asked2 = Some ''constructor'' \<and>
      messageMetadata asked2 \<noteq> None \<and> alerts asked2 = []"
    by (simp add: registry_def eval_defs)
  have e: "type_error clock0 ''undefined'' ''evidence'' =
      ''Cannot read properties of undefined (reading evidence)''"
    by (simp add: clock0_def)
  show ?thesis
    using unknown_message_stops_locally[of asked1 "''msg-unknown''" clock0 "''negative''"]
      unknown_message_stops_locally[of asked2 "''constructor''" clock0 "''negative''"]
      a b d e
    by simp
qed

section \<open>The typing indicator\<close>

lemma typing_count_thrown [simp]: "typing_count (s\<lparr>thrown := x\<rparr>) = typing_count s"
  by (simp add: typing_count_def)

lemma typing_count_appendAssistantMessage [simp]:
  "typing_count (appendAssistantMessage gen c text md ts s) = typing_count s"
  by (simp add: typing_count_def appendAssistantMessage_def append_child_def Let_def
      split: nullable.splits)

lemma typing_count_appendUserMessage [simp]:
  "typing_count (appendUserMessage c text ts s) = typing_count s"
  by (simp add: typing_count_def appendUserMessage_def append_child_def)

lemma typing_count_appendErrorMessage [simp]:
  "typing_count (appendErrorMessage c err s) = typing_count s"
  by (simp add: typing_count_def appendErrorMessage_def append_child_def)

lemma typing_count_render_messages [simp]:
  "typing_count (render_messages gen c ms s) = typing_count s"
  by (induction ms arbitrary: s) (simp_all add: Let_def split: option.splits)

lemma typing_count_removeTypingIndicator:
  "typing_count (removeTypingIndicator s) = typing_count s - 1"
proof (cases "TypingMessage \<in> set (messages_container s)")
  case True
  then show ?thesis
    by (simp add: typing_count_def removeTypingIndicator_def filter_remove1_len)
next
  case False
  then have "filter (\<lambda>e. e = TypingMessage) (messages_container s) = []"
    by (auto simp: filter_empty_conv)
  with False show ?thesis
    by (simp add: typing_count_def removeTypingIndicator_def remove1_idem)
qed

lemma mark_thumb_typing [simp]: "(mark_thumb i k e = TypingMessage) = (e = TypingMessage)"
  by (cases e) auto

lemma typing_filter_mark_thumb_comp:
  "filter ((\<lambda>e. e = TypingMessage) \<circ> mark_thumb i k) es = filter (\<lambda>e. e = TypingMessage) es"
  by (induction es) auto

lemma typing_count_quickFeedback [simp]:
  "typing_count (quickFeedback c i k s) = typing_count s"
  by (simp add: typing_count_def quickFeedback_def issue_def log_error_def mark_thumbs_def
      typing_filter_mark_thumb_comp split: option.splits lookup.splits)

lemma waiting_quickFeedback [simp]:
  "isWaitingForResponse (quickFeedback c i k s) = isWaitingForResponse s"
  by (simp add: quickFeedback_def issue_def log_error_def mark_thumbs_def
      split: option.splits lookup.splits)

lemma typing_count_sendMessage_resume:
  "typing_count (sendMessage_resume gen c r s) \<le> typing_count s - 1"
proof -
  have a: "\<And>t. typing_count (t\<lparr>isWaitingForResponse := False, send_btn_disabled := False\<rparr>) =
      typing_count t"
    by (simp add: typing_count_def)
  have b: "\<And>t x. typing_count (loadConversations (t\<lparr>conversation_title := x\<rparr>)) = typing_count t"
    by (simp add: typing_count_def loadConversations_def issue_def)
  have d: "\<And>t x y. typing_count (t\<lparr>messages_container := x, isWaitingForResponse := False,
      send_btn_disabled := False\<rparr>) = length (filter (\<lambda>e. e = TypingMessage) x)"
    by (simp add: typing_count_def)
  have e: "typing_count (s\<lparr>messages_container := remove1 TypingMessage (messages_container s)\<rparr>) =
      typing_count s - 1"
    using typing_count_removeTypingIndicator[of s] by (simp add: removeTypingIndicator_def)
  then have f: "length (filter (\<lambda>e. e = TypingMessage) (remove1 TypingMessage (messages_container s))) =
      typing_count s - 1"
    by (simp add: typing_count_def)
  show ?thesis
  proof (rule resume_cases[of r])
    fix m assume "r = Rejected m"
    then show ?thesis by (simp add: resume_rejected d f)
  next
    fix dd assume "r = Responded False dd"
    then show ?thesis by (simp add: resume_not_ok d f)
  next
    fix dd assume "r = Responded True dd" "reply_metadata dd \<noteq> Null"
    then show ?thesis
      by (simp add: resume_reply a b typing_count_removeTypingIndicator)
  next
    fix dd assume "r = Responded True dd" "reply_metadata dd = Null"
    then show ?thesis
      by (simp add: resume_null a typing_count_removeTypingIndicator)
  qed
qed

lemma typing_count_settle [simp]: "typing_count (settle k s) = typing_count s"
  by (simp add: typing_count_def settle_def)

lemma waiting_settle [simp]: "isWaitingForResponse (settle k s) = isWaitingForResponse s"
  by (simp add: settle_def)

lemma step_indicator_ok: "step gen s s' \<Longrightarrow> indicator_ok s \<Longrightarrow> indicator_ok s'"
proof (induction rule: step.induct)
  case (resume_sendMessage s c r5)
  have "typing_count (sendMessage_resume gen c r5 (settle SendMessageK s)) \<le> typing_count s - 1"
    using typing_count_sendMessage_resume[of gen c r5 "settle SendMessageK s"] by simp
  with resume_sendMessage show ?case
    by (auto simp: indicator_ok_def split: if_splits)
next
  case (call_sendMessage s c)
  then show ?case
    by (auto simp: indicator_ok_def typing_count_def sendMessage_def Let_def issue_def
        appendUserMessage_def appendTypingIndicator_def append_child_def split: if_splits)
next
  case (call_useExample s c prompt)
  then show ?case
    by (auto simp: indicator_ok_def typing_count_def useExample_def sendMessage_def Let_def
        issue_def appendUserMessage_def appendTypingIndicator_def append_child_def
        split: if_splits)
next
  case (resume_loadConversation convId s c r3)
  have a: "\<And>t x y. typing_count (report x y t) = typing_count t"
    by (simp add: typing_count_def report_def)
  have b: "\<And>t. typing_count (loadConversations t) = typing_count t"
    by (simp add: typing_count_def loadConversations_def issue_def)
  have c: "\<And>t x y. isWaitingForResponse (report x y t) = isWaitingForResponse t"
    by (simp add: report_def)
  have d: "\<And>t. isWaitingForResponse (loadConversations t) = isWaitingForResponse t"
    by (simp add: loadConversations_def issue_def)
  have e: "\<And>t. isWaitingForResponse (render_messages gen c r t) = isWaitingForResponse t" for r
    by (induction r) (simp_all add: appendUserMessage_def append_child_def Let_def
        split: option.splits)
  from resume_loadConversation show ?case
    by (auto simp: indicator_ok_def loadConversation_resume_def Let_def a b c d e
        split: fetched.splits option.splits if_splits)
      (simp_all add: typing_count_def)
next
  case (call_quickFeedback s c messageId kind)
  then show ?case
    by (simp add: indicator_ok_def)
qed (auto simp: indicator_ok_def typing_count_def chat_defs Let_def
      split: fetched.splits option.splits if_splits lookup.splits)

lemma reachable_indicator_ok: "reachable gen s \<Longrightarrow> indicator_ok s"
proof -
  assume "reachable gen s"
  then obtain s0 where s0: "page_loaded s0" "(step gen)\<^sup>*\<^sup>* s0 s"
    by (auto simp: reachable_def)
  from s0(1) have "indicator_ok s0"
    by (simp add: page_loaded_def indicator_ok_def typing_count_def)
  with s0(2) show ?thesis
    by (induction rule: rtranclp_induct) (auto intro: step_indicator_ok)
qed

section \<open>A failed send\<close>

lemma sendMessage_container:
  "trim (message_input s) \<noteq> [] \<Longrightarrow> \<not> isWaitingForResponse s \<Longrightarrow>
   messages_container (settle SendMessageK (sendMessage c s)) =
     messages_container s @
       [UserMessage (time_now c) (escapeHtml (trim (message_input s))), TypingMessage]"
  by (simp add: sendMessage_def Let_def issue_def settle_def appendUserMessage_def
      appendTypingIndicator_def append_child_def time_text_def)

text \<open>
  C9. A send that fails, by a rejected call or by a response that is not ok, removes
  the typing indicator and appends one error entry; every other field of the page but
  the pending flag and the send button is as it was. Straight after the call was
  issued from a reachable page, the transcript is the old one, the user's message and
  the error entry; and after any resumption of a send no indicator is left.
\<close>

theorem failed_send_appends_one_error:
  "sendMessage_resume gen c2 (Rejected m) s2 =
     s2\<lparr>messages_container := remove1 TypingMessage (messages_container s2) @
            [ErrorMessage (time_now c2) (escapeHtml (''Connection error: '' @ m))],
        isWaitingForResponse := False, send_btn_disabled := False\<rparr> \<and>
   sendMessage_resume gen c2 (Responded False data) s2 =
     s2\<lparr>messages_container := remove1 TypingMessage (messages_container s2) @
            [ErrorMessage (time_now c2) (escapeHtml (or_else (reply_error data) ''Unknown error''))],
        isWaitingForResponse := False, send_btn_disabled := False\<rparr> \<and>
   (reachable gen s3 \<longrightarrow>
      typing_count (sendMessage_resume gen c3 r3 (settle SendMessageK s3)) = 0) \<and>
   (reachable gen s \<and> trim (message_input s) \<noteq> [] \<and> \<not> isWaitingForResponse s \<longrightarrow>
      messages_container
          (sendMessage_resume gen c' (Rejected m) (settle SendMessageK (sendMessage c s))) =
        messages_container s @
          [UserMessage (time_now c) (escapeHtml (trim (message_input s))),
           ErrorMessage (time_now c') (escapeHtml (''Connection error: '' @ m))] \<and>
      messages_container
          (sendMessage_resume gen c' (Responded False data) (settle SendMessageK (sendMessage c s))) =
        messages_container s @
          [UserMessage (time_now c) (escapeHtml (trim (message_input s))),
           ErrorMessage (time_now c') (escapeHtml (or_else (reply_error data) ''Unknown error''))])"
proof (intro conjI impI)
  show "sendMessage_resume gen c2 (Rejected m) s2 =
     s2\<lparr>messages_container := remove1 TypingMessage (messages_container s2) @
            [ErrorMessage (time_now c2) (escapeHtml (''Connection error: '' @ m))],
        isWaitingForResponse := False, send_btn_disabled := False\<rparr>"
    by (simp add: sendMessage_resume_def appendErrorMessage_def removeTypingIndicator_def
        append_child_def)
  show "sendMessage_resume gen c2 (Responded False data) s2 =
     s2\<lparr>messages_container := remove1 TypingMessage (messages_container s2) @
            [ErrorMessage (time_now c2) (escapeHtml (or_else (reply_error data) ''Unknown error''))],
        isWaitingForResponse := False, send_btn_disabled := False\<rparr>"
    by (simp add: sendMessage_resume_def appendErrorMessage_def removeTypingIndicator_def
        append_child_def)
next
  assume "reachable gen s3"
  then have "indicator_ok s3" by (rule reachable_indicator_ok)
  then have "typing_count s3 \<le> 1"
    by (simp add: indicator_ok_def split: if_splits)
  with typing_count_sendMessage_resume[of gen c3 r3 "settle SendMessageK s3"]
  show "typing_count (sendMessage_resume gen c3 r3 (settle SendMessageK s3)) = 0"
    by simp
next
  assume a: "reachable gen s \<and> trim (message_input s) \<noteq> [] \<and> \<not> isWaitingForResponse s"
  then have "reachable gen s" by simp
  then have "indicator_ok s" by (rule reachable_indicator_ok)
  with a have none: "TypingMessage \<notin> set (messages_container s)"
    by (auto simp: indicator_ok_def typing_count_def filter_empty_conv)
  have cont: "messages_container (settle SendMessageK (sendMessage c s)) =
     messages_container s @
       [UserMessage (time_now c) (escapeHtml (trim (message_input s))), TypingMessage]"
    using a by (simp add: sendMessage_container)
  have rem: "remove1 TypingMessage (messages_container (settle SendMessageK (sendMessage c s))) =
     messages_container s @ [UserMessage (time_now c) (escapeHtml (trim (message_input s)))]"
    using none by (simp add: cont remove1_append)
  show "messages_container
          (sendMessage_resume gen c' (Rejected m) (settle SendMessageK (sendMessage c s))) =
        messages_container s @
          [UserMessage (time_now c) (escapeHtml (trim (message_input s))),
           ErrorMessage (time_now c') (escapeHtml (''Connection error: '' @ m))]"
    by (simp add: sendMessage_resume_def appendErrorMessage_def removeTypingIndicator_def
        append_child_def rem)
  show "messages_container
          (sendMessage_resume gen c' (Responded False data) (settle SendMessageK (sendMessage c s))) =
        messages_container s @
          [UserMessage (time_now c) (escapeHtml (trim (message_input s))),
           ErrorMessage (time_now c') (escapeHtml (or_else (reply_error data) ''Unknown error''))]"
    by (simp add: sendMessage_resume_def appendErrorMessage_def removeTypingIndicator_def
        append_child_def rem)
qed

theorem failed_send_appends_one_error_witness:
  "reachable gen0 typed1 \<and> trim (message_input typed1) \<noteq> [] \<and> \<not> isWaitingForResponse typed1 \<and>
   messages_container typed1 = [] \<and>
   messages_container failed1 =
     [UserMessage ''10:15:00'' ''Describe Emotet'', ErrorMessage ''10:15:00'' ''LLM timeout''] \<and>
   messages_container
     (sendMessage_resume gen0 clock0 (Rejected ''Failed to fetch'') (settle SendMessageK sending1)) =
     [UserMessage ''10:15:00'' ''Describe Emotet'',
      ErrorMessage ''10:15:00'' ''Connection error: Failed to fetch''] \<and>
   reachable gen0 sending1 \<and> typing_count failed1 = 0 \<and>
   messageMetadata failed1 = None"
proof -
  have r: "reachable gen0 typed1"
    unfolding typed1_def by (rule reachable_step[OF reachable_chat1 step.type_input])
  have a: "trim (message_input typed1) = ''Describe Emotet'' \<and> \<not> isWaitingForResponse typed1 \<and>
      messages_container typed1 = []"
    by (simp add: eval_defs)
  have b: "messageMetadata (settle SendMessageK sending1) = None"
    by (simp add: eval_defs)
  have c: "or_else (reply_error failure0) ''Unknown error'' = ''LLM timeout''"
    by (simp add: failure0_def or_else_def)
  have d: "time_now clock0 = ''10:15:00''"
    by (simp add: clock0_def)
  note t = failed_send_appends_one_error[of gen0 clock0 "''Failed to fetch''"
        "settle SendMessageK sending1" failure0 sending1 clock0 "Responded False failure0"
        typed1 clock0 clock0]
  have e: "messageMetadata failed1 = None"
    using t[THEN conjunct2, THEN conjunct1] b by (simp add: failed1_def)
  have f: "typing_count failed1 = 0"
    using t[THEN conjunct2, THEN conjunct2, THEN conjunct1] reachable_sending1[of gen0]
    by (simp add: failed1_def)
  have g: "messages_container
     (sendMessage_resume gen0 clock0 (Rejected ''Failed to fetch'') (settle SendMessageK sending1)) =
     [UserMessage ''10:15:00'' ''Describe Emotet'',
      ErrorMessage ''10:15:00'' ''Connection error: Failed to fetch''] \<and>
     messages_container failed1 =
     [UserMessage ''10:15:00'' ''Describe Emotet'', ErrorMessage ''10:15:00'' ''LLM timeout'']"
    using t[THEN conjunct2, THEN conjunct2, THEN conjunct2] r a c d
    by (simp add: failed1_def sending1_def)
  show ?thesis
    using r a e f g reachable_sending1[of gen0] by simp
qed

section \<open>The message registry\<close>

lemma message_ids_append [simp]: "message_ids (es @ fs) = message_ids es @ message_ids fs"
  by (induction es rule: message_ids.induct) simp_all

lemma message_ids_remove1_typing [simp]:
  "message_ids (remove1 TypingMessage es) = message_ids es"
  by (induction es rule: message_ids.induct) simp_all

lemma message_ids_mark_thumb [simp]: "message_ids (map (mark_thumb i k) es) = message_ids es"
  by (induction es rule: message_ids.induct) simp_all

lemma shows_entry_mark_thumb [simp]: "shows_entry r (mark_thumb i k e) = shows_entry r e"
  by (cases e) simp_all

lemma list_all_remove1: "list_all P es \<Longrightarrow> list_all P (remove1 e es)"
  by (induction es) auto

lemma shows_entry_ids: "list_all (shows_entry r) es \<Longrightarrow> set (message_ids es) \<subseteq> dom r"
  by (induction es rule: message_ids.induct) (auto split: option.splits)

lemma shows_entry_update:
  "list_all (shows_entry r) es \<Longrightarrow> i \<notin> dom r \<Longrightarrow> list_all (shows_entry (r(i \<mapsto> d))) es"
  by (induction es rule: message_ids.induct) (auto split: option.splits)

lemma registry_simps [simp]:
  "registry (s\<lparr>messages_container := es\<rparr>) = registry s"
  "registry (append_child e s) = registry s"
  "registry (removeTypingIndicator s) = registry s"
  "registry (appendUserMessage c text ts s) = registry s"
  "registry (appendErrorMessage c err s) = registry s"
  "registry (appendTypingIndicator s) = registry s"
  by (simp_all add: registry_def append_child_def removeTypingIndicator_def appendUserMessage_def
      appendErrorMessage_def appendTypingIndicator_def)

lemma registry_thrown [simp]: "registry (s\<lparr>thrown := x\<rparr>) = registry s"
  by (simp add: registry_def)

lemma registry_appendAssistantMessage:
  "registry (appendAssistantMessage gen c text md ts s) =
     (registry s)(gen (ids_generated s) \<mapsto>
        \<lparr>md_content = text,
         md_metadata =
           (case md of Undefined \<Rightarrow> Some empty_metadata | Null \<Rightarrow> None | Obj m \<Rightarrow> Some m)\<rparr>)"
  by (simp add: registry_def appendAssistantMessage_def append_child_def Let_def
      split: nullable.splits)

lemma container_appendAssistantMessage:
  "messages_container (appendAssistantMessage gen c text md ts s) =
     messages_container s @
       (case md of
          Undefined \<Rightarrow>
            [AssistantMessage (time_text c ts) (escapeHtml text) (evidence_block empty_metadata)
               (gen (ids_generated s)) None]
        | Null \<Rightarrow> []
        | Obj m \<Rightarrow>
            [AssistantMessage (time_text c ts) (escapeHtml text) (evidence_block m)
               (gen (ids_generated s)) None])"
  by (simp add: appendAssistantMessage_def append_child_def Let_def split: nullable.splits)

lemma ids_appendAssistantMessage:
  "ids_generated (appendAssistantMessage gen c text md ts s) = Suc (ids_generated s)"
  by (simp add: appendAssistantMessage_def append_child_def Let_def split: nullable.splits)

lemma inv_appendAssistantMessage:
  assumes "inj gen" and "registry_inv gen s"
  shows "registry_inv gen (appendAssistantMessage gen c text md ts s)"
proof -
  let ?n = "ids_generated s"
  from assms(2) have reg: "distinct (message_ids (messages_container s))"
      "list_all (shows_entry (registry s)) (messages_container s)"
      and use: "dom (registry s) = gen ` {..<?n}"
    by (simp_all add: registry_inv_def registered_def ids_in_use_def)
  from assms(1) use have fresh: "gen ?n \<notin> dom (registry s)"
    by (auto dest: injD)
  from reg(2) have sub: "set (message_ids (messages_container s)) \<subseteq> dom (registry s)"
    by (rule shows_entry_ids)
  have "distinct (message_ids (messages_container (appendAssistantMessage gen c text md ts s)))"
    using reg(1) sub fresh by (cases md) (auto simp: container_appendAssistantMessage)
  moreover have "list_all (shows_entry (registry (appendAssistantMessage gen c text md ts s)))
      (messages_container (appendAssistantMessage gen c text md ts s))"
    using shows_entry_update[OF reg(2) fresh]
    by (cases md) (simp_all add: container_appendAssistantMessage registry_appendAssistantMessage)
  moreover have "dom (registry (appendAssistantMessage gen c text md ts s)) = gen ` {..<Suc ?n}"
    using use by (auto simp: registry_appendAssistantMessage lessThan_Suc)
  ultimately show ?thesis
    by (simp add: registry_inv_def registered_def ids_in_use_def ids_appendAssistantMessage)
qed

lemma inv_frame:
  "messages_container s' = messages_container s \<Longrightarrow> messageMetadata s' = messageMetadata s \<Longrightarrow>
   ids_generated s' = ids_generated s \<Longrightarrow> registry_inv gen s' = registry_inv gen s"
  by (simp add: registry_inv_def registered_def ids_in_use_def registry_def)

lemma inv_append_plain:
  "registry_inv gen s \<Longrightarrow> message_ids [e] = [] \<Longrightarrow> registry_inv gen (append_child e s)"
  by (cases e) (simp_all add: registry_inv_def registered_def ids_in_use_def append_child_def
      registry_def)

lemma inv_appendUserMessage:
  "registry_inv gen s \<Longrightarrow> registry_inv gen (appendUserMessage c text ts s)"
  by (simp add: appendUserMessage_def inv_append_plain)

lemma inv_appendErrorMessage:
  "registry_inv gen s \<Longrightarrow> registry_inv gen (appendErrorMessage c err s)"
  by (simp add: appendErrorMessage_def inv_append_plain)

lemma inv_appendTypingIndicator:
  "registry_inv gen s \<Longrightarrow> registry_inv gen (appendTypingIndicator s)"
  by (simp add: appendTypingIndicator_def inv_append_plain)

lemma inv_removeTypingIndicator:
  "registry_inv gen s \<Longrightarrow> registry_inv gen (removeTypingIndicator s)"
  by (simp add: registry_inv_def registered_def ids_in_use_def removeTypingIndicator_def
      registry_def list_all_remove1)

lemma inv_thrown [simp]: "registry_inv gen (s\<lparr>thrown := x\<rparr>) = registry_inv gen s"
  by (rule inv_frame) simp_all

lemma inv_render_messages:
  "inj gen \<Longrightarrow> registry_inv gen s \<Longrightarrow> registry_inv gen (render_messages gen c ms s)"
  by (induction ms arbitrary: s)
    (simp_all add: inv_appendUserMessage inv_appendAssistantMessage Let_def
      split: option.splits)

lemma inv_issue [simp]: "registry_inv gen (issue r k s) = registry_inv gen s"
  by (rule inv_frame) (simp_all add: issue_def)

lemma inv_settle [simp]: "registry_inv gen (settle k s) = registry_inv gen s"
  by (rule inv_frame) (simp_all add: settle_def)

lemma inv_report [simp]: "registry_inv gen (report a b s) = registry_inv gen s"
  by (rule inv_frame) (simp_all add: report_def)

lemma inv_log_error [simp]: "registry_inv gen (log_error a s) = registry_inv gen s"
  by (rule inv_frame) (simp_all add: log_error_def)

lemma inv_loadConversations [simp]: "registry_inv gen (loadConversations s) = registry_inv gen s"
  by (simp add: loadConversations_def)

lemma inv_createNewChat [simp]: "registry_inv gen (createNewChat s) = registry_inv gen s"
  by (simp add: createNewChat_def)

lemma inv_clear:
  "registry_inv gen s \<Longrightarrow>
   messages_container s' = [] \<Longrightarrow> messageMetadata s' = messageMetadata s \<Longrightarrow>
   ids_generated s' = ids_generated s \<Longrightarrow> registry_inv gen s'"
  by (simp add: registry_inv_def registered_def ids_in_use_def registry_def)

lemma inv_sendMessage: "registry_inv gen s \<Longrightarrow> registry_inv gen (sendMessage c s)"
proof -
  assume a: "registry_inv gen s"
  have f: "\<And>t x y. registry_inv gen (t\<lparr>welcome_display := x, messages_display := y\<rparr>) =
      registry_inv gen t"
    by (rule inv_frame) simp_all
  have g: "\<And>t x. registry_inv gen (t\<lparr>message_input := x\<rparr>) = registry_inv gen t"
    by (rule inv_frame) simp_all
  have h: "\<And>t x y. registry_inv gen (t\<lparr>isWaitingForResponse := x, send_btn_disabled := y\<rparr>) =
      registry_inv gen t"
    by (rule inv_frame) simp_all
  show ?thesis
    using a by (simp add: sendMessage_def Let_def f g h inv_appendUserMessage
        inv_appendTypingIndicator)
qed

lemma resume_failed:
  "sendMessage_resume gen c (Rejected m) s =
     (appendErrorMessage c (''Connection error: '' @ m) (removeTypingIndicator s))
     \<lparr>isWaitingForResponse := False, send_btn_disabled := False\<rparr>"
  "sendMessage_resume gen c (Responded False d) s =
     (appendErrorMessage c (or_else (reply_error d) ''Unknown error'') (removeTypingIndicator s))
     \<lparr>isWaitingForResponse := False, send_btn_disabled := False\<rparr>"
  by (simp_all add: sendMessage_resume_def)

lemmas resume_calls = resume_failed resume_reply resume_null

lemma inv_sendMessage_resume:
  "inj gen \<Longrightarrow> registry_inv gen s \<Longrightarrow> registry_inv gen (sendMessage_resume gen c r s)"
proof -
  assume i: "inj gen" and a: "registry_inv gen s"
  have h: "\<And>t x y. registry_inv gen (t\<lparr>isWaitingForResponse := x, send_btn_disabled := y\<rparr>) =
      registry_inv gen t"
    by (rule inv_frame) simp_all
  have g: "\<And>t x. registry_inv gen (t\<lparr>conversation_title := x\<rparr>) = registry_inv gen t"
    by (rule inv_frame) simp_all
  show ?thesis
    using i a by (rule_tac resume_cases[of r])
      (simp_all add: resume_calls loadConversations_def g h inv_appendErrorMessage
        inv_removeTypingIndicator inv_appendAssistantMessage)
qed

lemma inv_loadConversation_resume:
  "inj gen \<Longrightarrow> registry_inv gen s \<Longrightarrow> registry_inv gen (loadConversation_resume gen c convId r s)"
proof -
  assume i: "inj gen" and a: "registry_inv gen s"
  have clr: "\<And>x. registry_inv gen
        (s\<lparr>currentConversationId := Some convId, welcome_display := ''none'',
           messages_display := ''block'', conversation_title := x, messages_container := []\<rparr>)"
    by (rule inv_clear[OF a]) simp_all
  show ?thesis
    using i a by (simp add: loadConversation_resume_def Let_def clr inv_render_messages
        split: fetched.splits option.splits)
qed

lemma inv_createNewChat_resume:
  "registry_inv gen s \<Longrightarrow> registry_inv gen (createNewChat_resume r s)"
proof -
  assume a: "registry_inv gen s"
  have clr: "\<And>x. registry_inv gen
        (s\<lparr>currentConversationId := x, welcome_display := ''flex'',
           messages_display := ''none'', messages_container := [],
           conversation_title := ''Threat Intelligence Chat''\<rparr>)"
    by (rule inv_clear[OF a]) simp_all
  show ?thesis
    using a by (simp add: createNewChat_resume_def clr split: fetched.splits)
qed

lemma inv_quickFeedback: "registry_inv gen s \<Longrightarrow> registry_inv gen (quickFeedback c i k s)"
  by (auto simp: quickFeedback_def registry_inv_def registered_def ids_in_use_def registry_def
      issue_def log_error_def mark_thumbs_def list_all_iff split: option.splits lookup.splits)

lemma step_registry_inv: "step gen s s' \<Longrightarrow> inj gen \<Longrightarrow> registry_inv gen s \<Longrightarrow> registry_inv gen s'"
proof (induction rule: step.induct)
  case (call_sendMessage s c)
  then show ?case by (simp add: inv_sendMessage)
next
  case (call_useExample s c prompt)
  have "registry_inv gen (s\<lparr>message_input := prompt\<rparr>) = registry_inv gen s"
    by (rule inv_frame) simp_all
  with call_useExample show ?case by (simp add: useExample_def inv_sendMessage)
next
  case (resume_sendMessage s c r5)
  then show ?case by (simp add: inv_sendMessage_resume)
next
  case (resume_loadConversation convId s c r3)
  then show ?case by (simp add: inv_loadConversation_resume)
next
  case (resume_createNewChat s r2)
  then show ?case by (simp add: inv_createNewChat_resume)
next
  case (call_quickFeedback s c messageId kind)
  then show ?case by (simp add: inv_quickFeedback)
next
  case (resume_deleteConversation convId s r4)
  then show ?case by (simp add: deleteConversation_resume_def split: fetched.splits)
next
  case (call_deleteConversation s confirmed convId)
  then show ?case by (simp add: deleteConversation_def)
next
  case (call_loadConversation s convId)
  then show ?case by (simp add: loadConversation_def)
qed (auto simp: registry_inv_def registered_def ids_in_use_def registry_def chat_defs Let_def
      split: fetched.splits option.splits if_splits lookup.splits)

lemma reachable_registry_inv: "inj gen \<Longrightarrow> reachable gen s \<Longrightarrow> registry_inv gen s"
proof -
  assume i: "inj gen" and "reachable gen s"
  then obtain s0 where s0: "page_loaded s0" "(step gen)\<^sup>*\<^sup>* s0 s"
    by (auto simp: reachable_def)
  from s0(1) have "registry_inv gen s0"
    by (simp add: page_loaded_def registry_inv_def registered_def ids_in_use_def registry_def)
  with s0(2) i show ?thesis
    by (induction rule: rtranclp_induct) (auto intro: step_registry_inv)
qed


lemma has_entries_frame:
  "messages_container s' = messages_container s \<Longrightarrow> messageMetadata s' = messageMetadata s \<Longrightarrow>
   has_entries s' = has_entries s"
  by (simp add: has_entries_def registry_def)

lemma has_entries_appendAssistantMessage:
  "has_entries s \<Longrightarrow> has_entries (appendAssistantMessage gen c text md ts s)"
  by (cases md)
    (auto simp: has_entries_def registry_appendAssistantMessage container_appendAssistantMessage)

lemma has_entries_thrown [simp]: "has_entries (s\<lparr>thrown := x\<rparr>) = has_entries s"
  by (rule has_entries_frame) simp_all

lemma has_entries_append_plain:
  "has_entries s \<Longrightarrow> message_ids [e] = [] \<Longrightarrow> has_entries (append_child e s)"
  by (simp add: has_entries_def append_child_def)

lemma has_entries_appendUserMessage:
  "has_entries s \<Longrightarrow> has_entries (appendUserMessage c text ts s)"
  by (simp add: appendUserMessage_def has_entries_append_plain)

lemma has_entries_appendErrorMessage:
  "has_entries s \<Longrightarrow> has_entries (appendErrorMessage c err s)"
  by (simp add: appendErrorMessage_def has_entries_append_plain)

lemma has_entries_appendTypingIndicator:
  "has_entries s \<Longrightarrow> has_entries (appendTypingIndicator s)"
  by (simp add: appendTypingIndicator_def has_entries_append_plain)

lemma has_entries_removeTypingIndicator:
  "has_entries s \<Longrightarrow> has_entries (removeTypingIndicator s)"
  by (simp add: has_entries_def removeTypingIndicator_def)

lemma has_entries_render_messages:
  "has_entries s \<Longrightarrow> has_entries (render_messages gen c ms s)"
  by (induction ms arbitrary: s)
    (simp_all add: has_entries_appendUserMessage has_entries_appendAssistantMessage Let_def
      split: option.splits)

lemma has_entries_clear:
  "messages_container s' = [] \<Longrightarrow> has_entries s'"
  by (simp add: has_entries_def)

lemma has_entries_issue [simp]: "has_entries (issue r k s) = has_entries s"
  by (rule has_entries_frame) (simp_all add: issue_def)

lemma has_entries_settle [simp]: "has_entries (settle k s) = has_entries s"
  by (rule has_entries_frame) (simp_all add: settle_def)

lemma has_entries_report [simp]: "has_entries (report a b s) = has_entries s"
  by (rule has_entries_frame) (simp_all add: report_def)

lemma has_entries_loadConversations [simp]: "has_entries (loadConversations s) = has_entries s"
  by (simp add: loadConversations_def)

lemma has_entries_createNewChat [simp]: "has_entries (createNewChat s) = has_entries s"
  by (simp add: createNewChat_def)

lemma has_entries_sendMessage: "has_entries s \<Longrightarrow> has_entries (sendMessage c s)"
proof -
  assume a: "has_entries s"
  have f: "\<And>t x y. has_entries (t\<lparr>welcome_display := x, messages_display := y\<rparr>) = has_entries t"
    by (rule has_entries_frame) simp_all
  have g: "\<And>t x. has_entries (t\<lparr>message_input := x\<rparr>) = has_entries t"
    by (rule has_entries_frame) simp_all
  have h: "\<And>t x y. has_entries (t\<lparr>isWaitingForResponse := x, send_btn_disabled := y\<rparr>) =
      has_entries t"
    by (rule has_entries_frame) simp_all
  show ?thesis
    using a by (simp add: sendMessage_def Let_def f g h has_entries_appendUserMessage
        has_entries_appendTypingIndicator)
qed

lemma has_entries_sendMessage_resume:
  "has_entries s \<Longrightarrow> has_entries (sendMessage_resume gen c r s)"
proof -
  assume a: "has_entries s"
  have h: "\<And>t x y. has_entries (t\<lparr>isWaitingForResponse := x, send_btn_disabled := y\<rparr>) =
      has_entries t"
    by (rule has_entries_frame) simp_all
  have g: "\<And>t x. has_entries (t\<lparr>conversation_title := x\<rparr>) = has_entries t"
    by (rule has_entries_frame) simp_all
  show ?thesis
    using a by (rule_tac resume_cases[of r])
      (simp_all add: resume_calls loadConversations_def g h has_entries_appendErrorMessage
        has_entries_removeTypingIndicator has_entries_appendAssistantMessage)
qed

lemma has_entries_loadConversation_resume:
  "has_entries s \<Longrightarrow> has_entries (loadConversation_resume gen c convId r s)"
  by (simp add: loadConversation_resume_def Let_def has_entries_render_messages has_entries_clear
      split: fetched.splits option.splits)

lemma has_entries_createNewChat_resume:
  "has_entries s \<Longrightarrow> has_entries (createNewChat_resume r s)"
  by (simp add: createNewChat_resume_def has_entries_clear split: fetched.splits)

lemma has_entries_quickFeedback: "has_entries s \<Longrightarrow> has_entries (quickFeedback c i k s)"
  by (auto simp: quickFeedback_def has_entries_def registry_def issue_def log_error_def
      mark_thumbs_def split: option.splits lookup.splits)

lemma step_has_entries: "step gen s s' \<Longrightarrow> has_entries s \<Longrightarrow> has_entries s'"
proof (induction rule: step.induct)
  case (call_sendMessage s c)
  then show ?case by (simp add: has_entries_sendMessage)
next
  case (call_useExample s c prompt)
  have "has_entries (s\<lparr>message_input := prompt\<rparr>) = has_entries s"
    by (rule has_entries_frame) simp_all
  with call_useExample show ?case by (simp add: useExample_def has_entries_sendMessage)
next
  case (resume_sendMessage s c r5)
  then show ?case by (simp add: has_entries_sendMessage_resume)
next
  case (resume_loadConversation convId s c r3)
  then show ?case by (simp add: has_entries_loadConversation_resume)
next
  case (resume_createNewChat s r2)
  then show ?case by (simp add: has_entries_createNewChat_resume)
next
  case (call_quickFeedback s c messageId kind)
  then show ?case by (simp add: has_entries_quickFeedback)
next
  case (resume_deleteConversation convId s r4)
  then show ?case by (simp add: deleteConversation_resume_def split: fetched.splits)
next
  case (call_deleteConversation s confirmed convId)
  then show ?case by (simp add: deleteConversation_def)
next
  case (call_loadConversation s convId)
  then show ?case by (simp add: loadConversation_def)
qed (auto simp: has_entries_def registry_def chat_defs Let_def
      split: fetched.splits option.splits if_splits lookup.splits)

lemma reachable_has_entries: "reachable gen s \<Longrightarrow> has_entries s"
proof -
  assume "reachable gen s"
  then obtain s0 where s0: "page_loaded s0" "(step gen)\<^sup>*\<^sup>* s0 s"
    by (auto simp: reachable_def)
  from s0(1) have "has_entries s0"
    by (simp add: page_loaded_def has_entries_def)
  with s0(2) show ?thesis
    by (induction rule: rtranclp_induct) (auto intro: step_has_entries)
qed

subsection \<open>Entries stay\<close>

lemma dom_registry_appendAssistantMessage:
  "dom (registry s) \<subseteq> dom (registry (appendAssistantMessage gen c text md ts s))"
  by (auto simp: registry_appendAssistantMessage)

lemma dom_registry_render_messages:
  "dom (registry s) \<subseteq> dom (registry (render_messages gen c ms s))"
proof (induction ms arbitrary: s)
  case Nil
  show ?case by simp
next
  case (Cons msg ms)
  show ?case
  proof (cases "role msg = ''user''")
    case True
    with Cons[of "appendUserMessage c (content msg) (timestamp msg) s"] show ?thesis
      by simp
  next
    case False
    let ?s = "appendAssistantMessage gen c (content msg) (msg_metadata msg) (timestamp msg) s"
    have a: "dom (registry s) \<subseteq> dom (registry ?s)"
      by (rule dom_registry_appendAssistantMessage)
    show ?thesis
    proof (cases "thrown ?s")
      case None
      have "dom (registry ?s) \<subseteq> dom (registry (render_messages gen c ms ?s))"
        by (rule Cons)
      with a have "dom (registry s) \<subseteq> dom (registry (render_messages gen c ms ?s))"
        by (rule subset_trans)
      with False None show ?thesis by (simp add: Let_def)
    next
      case (Some e)
      with False a show ?thesis by (simp add: Let_def)
    qed
  qed
qed

lemma registry_issue [simp]: "registry (issue r k s) = registry s"
  by (simp add: registry_def issue_def)

lemma registry_settle [simp]: "registry (settle k s) = registry s"
  by (simp add: registry_def settle_def)

lemma registry_report [simp]: "registry (report a b s) = registry s"
  by (simp add: registry_def report_def)

lemma registry_loadConversations [simp]: "registry (loadConversations s) = registry s"
  by (simp add: loadConversations_def)

lemma registry_createNewChat [simp]: "registry (createNewChat s) = registry s"
  by (simp add: createNewChat_def)

lemma dom_registry_sendMessage_resume:
  "dom (registry s) \<subseteq> dom (registry (sendMessage_resume gen c r s))"
proof -
  have h: "\<And>t x y. registry (t\<lparr>isWaitingForResponse := x, send_btn_disabled := y\<rparr>) = registry t"
    by (simp add: registry_def)
  have g: "\<And>t x. registry (t\<lparr>conversation_title := x\<rparr>) = registry t"
    by (simp add: registry_def)
  show ?thesis
    using dom_registry_appendAssistantMessage[of "removeTypingIndicator s" gen c]
    by (rule_tac resume_cases[of r])
      (auto simp: resume_calls loadConversations_def g h)
qed

lemma dom_registry_loadConversation_resume:
  "dom (registry s) \<subseteq> dom (registry (loadConversation_resume gen c convId r s))"
proof (cases r)
  case (Rejected m)
  then show ?thesis by (simp add: loadConversation_resume_def)
next
  case (Responded ok conv)
  define s1 where "s1 = s\<lparr>currentConversationId := Some convId, welcome_display := ''none'',
      messages_display := ''block'',
      conversation_title := (case title conv of None \<Rightarrow> [] | Some t \<Rightarrow> t),
      messages_container := []\<rparr>"
  have h: "registry s1 = registry s"
    by (simp add: s1_def registry_def)
  show ?thesis
  proof (cases "messages conv")
    case None
    with Responded show ?thesis
      by (simp add: loadConversation_resume_def Let_def s1_def[symmetric] h)
  next
    case (Some ms)
    have "dom (registry s1) \<subseteq> dom (registry (render_messages gen c ms s1))"
      by (rule dom_registry_render_messages)
    with Responded Some show ?thesis
      by (simp add: loadConversation_resume_def Let_def s1_def[symmetric] h
          split: option.splits)
  qed
qed

lemma step_registry_grows: "step gen s s' \<Longrightarrow> dom (registry s) \<subseteq> dom (registry s')"
proof (induction rule: step.induct)
  case (resume_sendMessage s c r5)
  show ?case
    using dom_registry_sendMessage_resume[of "settle SendMessageK s"] by simp
next
  case (resume_loadConversation convId s c r3)
  show ?case
    using dom_registry_loadConversation_resume[of "settle (LoadConversationK convId) s"] by simp
qed (auto simp: registry_def chat_defs Let_def
      split: fetched.splits option.splits if_splits lookup.splits)


lemma fresh_id: "inj gen \<Longrightarrow> registry_inv gen s \<Longrightarrow> gen (ids_generated s) \<notin> dom (registry s)"
  by (auto simp: registry_inv_def ids_in_use_def dest: injD)

lemma kept_appendAssistantMessage:
  "inj gen \<Longrightarrow> registry_inv gen s \<Longrightarrow>
   registry s \<subseteq>\<^sub>m registry (appendAssistantMessage gen c text md ts s)"
  using fresh_id[of gen s] by (auto simp: registry_appendAssistantMessage map_le_def)

lemma kept_render_messages:
  "inj gen \<Longrightarrow> registry_inv gen s \<Longrightarrow> registry s \<subseteq>\<^sub>m registry (render_messages gen c ms s)"
proof (induction ms arbitrary: s)
  case Nil
  show ?case by simp
next
  case (Cons msg ms)
  show ?case
  proof (cases "role msg = ''user''")
    case True
    have "registry_inv gen (appendUserMessage c (content msg) (timestamp msg) s)"
      using Cons.prems by (simp add: inv_appendUserMessage)
    from Cons.IH[OF Cons.prems(1) this] True show ?thesis
      by simp
  next
    case False
    let ?s = "appendAssistantMessage gen c (content msg) (msg_metadata msg) (timestamp msg) s"
    have k: "registry s \<subseteq>\<^sub>m registry ?s"
      using Cons.prems by (rule kept_appendAssistantMessage)
    show ?thesis
    proof (cases "thrown ?s")
      case None
      have "registry_inv gen ?s"
        using Cons.prems by (simp add: inv_appendAssistantMessage)
      from Cons.IH[OF Cons.prems(1) this]
      have "registry ?s \<subseteq>\<^sub>m registry (render_messages gen c ms ?s)" .
      with k have "registry s \<subseteq>\<^sub>m registry (render_messages gen c ms ?s)"
        by (rule map_le_trans)
      with False None show ?thesis by (simp add: Let_def)
    next
      case (Some e)
      with False k show ?thesis by (simp add: Let_def)
    qed
  qed
qed

lemma kept_sendMessage_resume:
  "inj gen \<Longrightarrow> registry_inv gen s \<Longrightarrow> registry s \<subseteq>\<^sub>m registry (sendMessage_resume gen c r s)"
proof -
  assume i: "inj gen" and a: "registry_inv gen s"
  have h: "\<And>t x y. registry (t\<lparr>isWaitingForResponse := x, send_btn_disabled := y\<rparr>) = registry t"
    by (simp add: registry_def)
  have g: "\<And>t x. registry (t\<lparr>conversation_title := x\<rparr>) = registry t"
    by (simp add: registry_def)
  have "registry_inv gen (removeTypingIndicator s)"
    using a by (rule inv_removeTypingIndicator)
  from kept_appendAssistantMessage[OF i this] show ?thesis
    by (rule_tac resume_cases[of r])
      (simp_all add: resume_calls loadConversations_def g h)
qed

lemma kept_loadConversation_resume:
  "inj gen \<Longrightarrow> registry_inv gen s \<Longrightarrow>
   registry s \<subseteq>\<^sub>m registry (loadConversation_resume gen c convId r s)"
proof (cases r)
  case (Rejected m)
  then show ?thesis by (simp add: loadConversation_resume_def)
next
  case (Responded ok conv)
  assume i: "inj gen" and a: "registry_inv gen s"
  define s1 where "s1 = s\<lparr>currentConversationId := Some convId, welcome_display := ''none'',
      messages_display := ''block'',
      conversation_title := (case title conv of None \<Rightarrow> [] | Some t \<Rightarrow> t),
      messages_container := []\<rparr>"
  have h: "registry s1 = registry s"
    by (simp add: s1_def registry_def)
  have inv1: "registry_inv gen s1"
    by (rule inv_clear[OF a]) (simp_all add: s1_def)
  show ?thesis
  proof (cases "messages conv")
    case None
    with Responded show ?thesis
      by (simp add: loadConversation_resume_def Let_def s1_def[symmetric] h)
  next
    case (Some ms)
    from kept_render_messages[OF i inv1, of c ms] Responded Some show ?thesis
      by (simp add: loadConversation_resume_def Let_def s1_def[symmetric] h
          split: option.splits)
  qed
qed

lemma step_registry_kept:
  "step gen s s' \<Longrightarrow> inj gen \<Longrightarrow> registry_inv gen s \<Longrightarrow> registry s \<subseteq>\<^sub>m registry s'"
proof (induction rule: step.induct)
  case (resume_sendMessage s c r5)
  then show ?case
    using kept_sendMessage_resume[of gen "settle SendMessageK s"] by simp
next
  case (resume_loadConversation convId s c r3)
  then show ?case
    using kept_loadConversation_resume[of gen "settle (LoadConversationK convId) s"] by simp
qed (auto simp: registry_def chat_defs Let_def
      split: fetched.splits option.splits if_splits lookup.splits)

lemma inj_gen0: "inj gen0"
proof (rule injI)
  fix x y
  assume "gen0 x = gen0 y"
  then have "length (gen0 x) = length (gen0 y)" by simp
  then show "x = y" by (simp add: gen0_def)
qed

text \<open>
  C3. Called with metadata that is an object or is missing, \<open>appendAssistantMessage\<close>
  appends one element to the transcript and, in the same call, stores the content and
  the metadata under the element's identifier. Called with \<^verbatim>\<open>null\<close> it stores the entry,
  raises the TypeError and appends nothing. In every state the page reaches, each
  assistant message of the transcript has a registry entry under its identifier; when
  the generated identifiers do not repeat, the identifiers in the transcript are
  pairwise different, each message shows the content and the evidence of its own entry,
  and the registry holds the identifiers generated so far and no other. No step removes
  an entry, and when identifiers do not repeat no step changes one.
  \<open>appendErrorMessage\<close> leaves the registry as it is.
\<close>

theorem registry_tracks_assistant_messages:
  "(md \<noteq> Null \<longrightarrow>
      messages_container (appendAssistantMessage gen c text md ts s1) =
        messages_container s1 @
          [AssistantMessage (time_text c ts) (escapeHtml text)
             (evidence_block (case md of Obj m \<Rightarrow> m | _ \<Rightarrow> empty_metadata))
             (gen (ids_generated s1)) None] \<and>
      registry (appendAssistantMessage gen c text md ts s1) =
        (registry s1)(gen (ids_generated s1) \<mapsto>
           \<lparr>md_content = text,
            md_metadata = Some (case md of Obj m \<Rightarrow> m | _ \<Rightarrow> empty_metadata)\<rparr>) \<and>
      thrown (appendAssistantMessage gen c text md ts s1) = None) \<and>
   (messages_container (appendAssistantMessage gen c text Null ts s1) = messages_container s1 \<and>
    registry (appendAssistantMessage gen c text Null ts s1) =
      (registry s1)(gen (ids_generated s1) \<mapsto> \<lparr>md_content = text, md_metadata = None\<rparr>) \<and>
    thrown (appendAssistantMessage gen c text Null ts s1) =
      Some (type_error c ''null'' ''evidence'')) \<and>
   (reachable gen s2 \<longrightarrow> set (message_ids (messages_container s2)) \<subseteq> dom (registry s2)) \<and>
   (inj gen \<and> reachable gen s3 \<longrightarrow> registered s3 \<and> ids_in_use gen s3) \<and>
   (step gen s4 s4' \<longrightarrow> dom (registry s4) \<subseteq> dom (registry s4')) \<and>
   (inj gen \<and> reachable gen s5 \<and> step gen s5 s5' \<longrightarrow> registry s5 \<subseteq>\<^sub>m registry s5') \<and>
   messageMetadata (appendErrorMessage c' err s6) = messageMetadata s6 \<and>
   messages_container (appendErrorMessage c' err s6) =
     messages_container s6 @ [ErrorMessage (time_now c') (escapeHtml err)]"
proof (intro conjI impI)
  assume n: "md \<noteq> Null"
  from n show "messages_container (appendAssistantMessage gen c text md ts s1) =
        messages_container s1 @
          [AssistantMessage (time_text c ts) (escapeHtml text)
             (evidence_block (case md of Obj m \<Rightarrow> m | _ \<Rightarrow> empty_metadata))
             (gen (ids_generated s1)) None]"
    by (cases md) (simp_all add: container_appendAssistantMessage)
  from n show "registry (appendAssistantMessage gen c text md ts s1) =
        (registry s1)(gen (ids_generated s1) \<mapsto>
           \<lparr>md_content = text,
            md_metadata = Some (case md of Obj m \<Rightarrow> m | _ \<Rightarrow> empty_metadata)\<rparr>)"
    by (cases md) (simp_all add: registry_appendAssistantMessage)
  from n show "thrown (appendAssistantMessage gen c text md ts s1) = None"
    by (simp add: thrown_appendAssistantMessage)
next
  show "messages_container (appendAssistantMessage gen c text Null ts s1) = messages_container s1"
    by (simp add: container_appendAssistantMessage)
  show "registry (appendAssistantMessage gen c text Null ts s1) =
      (registry s1)(gen (ids_generated s1) \<mapsto> \<lparr>md_content = text, md_metadata = None\<rparr>)"
    by (simp add: registry_appendAssistantMessage)
  show "thrown (appendAssistantMessage gen c text Null ts s1) =
      Some (type_error c ''null'' ''evidence'')"
    by (simp add: thrown_appendAssistantMessage)
  show "messageMetadata (appendErrorMessage c' err s6) = messageMetadata s6"
    by (simp add: appendErrorMessage_def append_child_def)
  show "messages_container (appendErrorMessage c' err s6) =
     messages_container s6 @ [ErrorMessage (time_now c') (escapeHtml err)]"
    by (simp add: appendErrorMessage_def append_child_def)
next
  assume "reachable gen s2"
  then have "has_entries s2" by (rule reachable_has_entries)
  then show "set (message_ids (messages_container s2)) \<subseteq> dom (registry s2)"
    by (simp add: has_entries_def)
next
  assume "inj gen \<and> reachable gen s3"
  then have "registry_inv gen s3" by (simp add: reachable_registry_inv)
  then show "registered s3" and "ids_in_use gen s3" by (simp_all add: registry_inv_def)
next
  assume "step gen s4 s4'"
  then show "dom (registry s4) \<subseteq> dom (registry s4')" by (rule step_registry_grows)
next
  assume a: "inj gen \<and> reachable gen s5 \<and> step gen s5 s5'"
  then have "registry_inv gen s5" by (simp add: reachable_registry_inv)
  with a show "registry s5 \<subseteq>\<^sub>m registry s5'" by (blast intro: step_registry_kept)
qed

theorem registry_tracks_assistant_messages_witness:
  "inj gen0 \<and> reachable gen0 sending1 \<and> reachable gen0 answered1 \<and> step gen0 sending1 answered1 \<and>
   messages_container answered1 =
     [UserMessage ''10:15:00'' ''Describe Emotet'',
      AssistantMessage ''10:15:00'' ''Emotet is a banking trojan.''
        (evidence_block meta4) ''msg-1704104100000-a'' None] \<and>
   registry sending1 = Map.empty \<and>
   registry answered1 =
     [''msg-1704104100000-a'' \<mapsto>
        \<lparr>md_content = ''Emotet is a banking trojan.'', md_metadata = Some meta4\<rparr>] \<and>
   set (message_ids (messages_container answered1)) \<subseteq> dom (registry answered1) \<and>
   registered answered1 \<and> ids_in_use gen0 answered1 \<and>
   dom (registry sending1) \<subseteq> dom (registry answered1) \<and>
   registry sending1 \<subseteq>\<^sub>m registry answered1 \<and>
   messageMetadata failed1 = None \<and>
   reachable gen0 orphaned1 \<and> step gen0 sending1 orphaned1 \<and>
   messages_container orphaned1 =
     [UserMessage ''10:15:00'' ''Describe Emotet'',
      ErrorMessage ''10:15:00''
        ''Connection error: Cannot read properties of null (reading evidence)''] \<and>
   registry orphaned1 =
     [''msg-1704104100000-a'' \<mapsto>
        \<lparr>md_content = ''Emotet is a banking trojan.'', md_metadata = None\<rparr>] \<and>
   registered orphaned1 \<and> ids_in_use gen0 orphaned1 \<and>
   registry sending1 \<subseteq>\<^sub>m registry orphaned1"
proof -
  have p: "SendMessageK \<in> set (pending sending1)"
    by (simp add: eval_defs)
  have st: "step gen0 sending1 answered1"
    unfolding answered1_def by (rule step.resume_sendMessage[OF p])
  have ra: "reachable gen0 answered1"
    using reachable_sending1[of gen0] st by (rule reachable_step)
  let ?s = "removeTypingIndicator (settle SendMessageK sending1)"
  note t = registry_tracks_assistant_messages[of "Obj meta4" gen0 clock0
      "''Emotet is a banking trojan.''" None ?s answered1 answered1 sending1 answered1
      sending1 answered1 clock0 "''LLM timeout''" ?s]
  have s0: "messages_container ?s = [UserMessage ''10:15:00'' ''Describe Emotet''] \<and>
      registry ?s = Map.empty \<and> ids_generated ?s = 0 \<and> messageMetadata ?s = None"
    by (simp add: registry_def eval_defs)
  have an: "answered1 =
      (loadConversations
        ((appendAssistantMessage gen0 clock0 ''Emotet is a banking trojan.'' (Obj meta4) None ?s)
           \<lparr>conversation_title := ''Emotet is a banking trojan.''\<rparr>))
        \<lparr>isWaitingForResponse := False, send_btn_disabled := False\<rparr>"
    by (simp add: answered1_def resume_reply reply0_def)
  have fa: "failed1 = (appendErrorMessage clock0 ''LLM timeout'' ?s)
        \<lparr>isWaitingForResponse := False, send_btn_disabled := False\<rparr>"
    by (simp add: failed1_def sendMessage_resume_def Let_def failure0_def or_else_def)
  have c1: "messages_container answered1 =
     [UserMessage ''10:15:00'' ''Describe Emotet'',
      AssistantMessage ''10:15:00'' ''Emotet is a banking trojan.''
        (evidence_block meta4) ''msg-1704104100000-a'' None]"
    using t[THEN conjunct1] s0
    by (simp add: an loadConversations_def issue_def time_text_def clock0_def gen0_def)
  have c2: "registry answered1 =
     [''msg-1704104100000-a'' \<mapsto>
        \<lparr>md_content = ''Emotet is a banking trojan.'', md_metadata = Some meta4\<rparr>]"
    using t[THEN conjunct1] s0
    by (simp add: an registry_def loadConversations_def issue_def gen0_def)
  have c3: "registry sending1 = Map.empty"
    by (simp add: registry_def eval_defs)
  have c4: "messageMetadata failed1 = None"
    using t[THEN conjunct2, THEN conjunct2, THEN conjunct2, THEN conjunct2, THEN conjunct2,
        THEN conjunct2, THEN conjunct1] s0
    by (simp add: fa)
  have so: "step gen0 sending1 orphaned1"
    unfolding orphaned1_def by (rule step.resume_sendMessage[OF p])
  have ro: "reachable gen0 orphaned1"
    using reachable_sending1[of gen0] so by (rule reachable_step)
  note u = registry_tracks_assistant_messages[of Null gen0 clock0
      "''Emotet is a banking trojan.''" None ?s orphaned1 orphaned1 sending1 orphaned1
      sending1 orphaned1 clock0 "''LLM timeout''" ?s]
  have o1: "messages_container orphaned1 =
     [UserMessage ''10:15:00'' ''Describe Emotet'',
      ErrorMessage ''10:15:00''
        ''Connection error: Cannot read properties of null (reading evidence)'']"
    by (simp add: eval_defs)
  have o2: "registry orphaned1 =
     [''msg-1704104100000-a'' \<mapsto>
        \<lparr>md_content = ''Emotet is a banking trojan.'', md_metadata = None\<rparr>]"
    by (simp add: registry_def eval_defs)
  have o3: "registered orphaned1 \<and> ids_in_use gen0 orphaned1 \<and>
      registry sending1 \<subseteq>\<^sub>m registry orphaned1"
    using u[THEN conjunct2, THEN conjunct2] inj_gen0 reachable_sending1[of gen0] ro so
    by simp
  have a1: "inj gen0 \<and> reachable gen0 sending1 \<and> reachable gen0 answered1 \<and>
      step gen0 sending1 answered1 \<and>
      set (message_ids (messages_container answered1)) \<subseteq> dom (registry answered1) \<and>
      registered answered1 \<and> ids_in_use gen0 answered1 \<and>
      dom (registry sending1) \<subseteq> dom (registry answered1) \<and>
      registry sending1 \<subseteq>\<^sub>m registry answered1"
    using t[THEN conjunct2, THEN conjunct2] inj_gen0 reachable_sending1[of gen0] ra st
    by simp
  show ?thesis
    using a1 c1 c2 c3 c4 so ro o1 o2 o3 by simp
qed

end
